theory Spec2Isabelle
  imports Main "HOL-Library.Sublist"
begin

section \<open>The upgrade helper of nextui-cli\<close>

text \<open>
  The development embeds the three functions of the upgrade helper
  (\<^verbatim>\<open>upgrade\<close>, \<^verbatim>\<open>getUpgradeVersion\<close>, \<^verbatim>\<open>getPackagePeerDep\<close>) together
  with \<^verbatim>\<open>outputDependencies\<close>. Strings are \<^typ>\<open>string\<close>; one \<^typ>\<open>char\<close> stands
  for one UTF-16 code unit, which is what \<^verbatim>\<open>.length\<close>, \<^verbatim>\<open>padEnd\<close> and
  \<^verbatim>\<open>padStart\<close> count.
\<close>

subsection \<open>Data\<close>

text \<open>
  \<^verbatim>\<open>Dependencies\<close> is a \<^verbatim>\<open>Record<string, string>\<close>. It is kept as the list of its
  entries in the order \<^verbatim>\<open>Object.entries\<close> enumerates them; indexing
  \<^verbatim>\<open>deps[name]\<close> is \<^const>\<open>map_of\<close>, with \<^const>\<open>None\<close> for \<^verbatim>\<open>undefined\<close>.
\<close>

type_synonym Dependencies = "(string \<times> string) list"

record UpgradeOption =
  package :: string
  version :: string
  latestVersion :: string
  isLatest :: bool
  versionMode :: string
  peerDependencies :: "Dependencies option"

record Upgrade =
  isNextUIAll :: bool
  allDependencies :: Dependencies
  upgradeOptionList :: "UpgradeOption list"

text \<open>
  What a call may throw: a rejected command, a JSON syntax error, a malformed
  version, a type error. Two more values mark where the model stops short of
  naming one thrown value:
  \<^item> \<open>OneOf es\<close>: \<^verbatim>\<open>Promise.all\<close> rejects with the reason of the promise that rejects
    first, one of \<open>es\<close>; which one depends on the order in which the calls end;
  \<^item> \<open>NonStringVersion p\<close>: nothing is thrown, but the resolver has built, for the
    peer \<open>p\<close>, a candidate whose \<^verbatim>\<open>version\<close> is not a string. No \<open>UpgradeOption\<close> holds
    it, and the model follows the call no further.
\<close>

datatype error =
    ExecError string
  | SyntaxError string
  | VersionError string
  | TypeError string
  | OneOf "error list"
  | NonStringVersion string

text \<open>
  The collaborators that the helper imports from other modules, and the two
  library calls whose result depends on the outside world, are parameters of the
  model. \<^verbatim>\<open>compareVersions\<close>, \<^verbatim>\<open>exec\<close> and \<^verbatim>\<open>JSON.parse\<close> may throw.
  \<^verbatim>\<open>JSON.parse\<close> yields \<^const>\<open>None\<close> for a falsy value (such as \<^verbatim>\<open>null\<close>) and
  \<^term>\<open>Some d\<close> for an object with the entries \<open>d\<close>.
  \<^verbatim>\<open>getVersionAndMode\<close> returns the pair of \<^verbatim>\<open>currentVersion\<close> and \<^verbatim>\<open>versionMode\<close>.

  The version helpers are typed for strings. The resolver can hand them a value
  that is no string: a member of \<^verbatim>\<open>Object.prototype\<close> read from the installed set
  (see \<open>getProperty\<close> below). \<open>helpersOnInherited deps peerPackage peerVersion\<close> is
  what the rest of the loop body then throws, in the order of its calls
  (\<^verbatim>\<open>getVersionAndMode\<close>, \<^verbatim>\<open>transformPeerVersion\<close>, \<^verbatim>\<open>compareVersions\<close>, and
  \<^verbatim>\<open>transformPeerVersion\<close> or \<^verbatim>\<open>getColorVersion\<close> on that value), or \<^const>\<open>None\<close> when
  none of them throws.
\<close>

record env =
  NEXT_UI :: string
  THEME_UI :: string
  compareVersions :: "string \<Rightarrow> string \<Rightarrow> error + int"
  getVersionAndMode :: "Dependencies \<Rightarrow> string \<Rightarrow> string \<times> string"
  getColorVersion :: "string \<Rightarrow> string \<Rightarrow> string"
  transformPeerVersion :: "string \<Rightarrow> string"
  helpersOnInherited :: "Dependencies \<Rightarrow> string \<Rightarrow> string \<Rightarrow> error option"
  exec :: "string \<Rightarrow> error + string"
  JSON_parse :: "string \<Rightarrow> error + Dependencies option"
  chalk_white :: "string \<Rightarrow> string"
  chalk_greenBright :: "string \<Rightarrow> string"
  chalk_blue :: "string \<Rightarrow> string"
  chalk_yellow :: "string \<Rightarrow> string"

text \<open>The argument of one \<^verbatim>\<open>outputBox\<close> call.\<close>

record box =
  boxColor :: string
  boxText :: string
  boxTitle :: string

subsection \<open>String primitives of the language\<close>

text \<open>\<^verbatim>\<open>s.replace(pat, rep)\<close> with a string pattern: the first occurrence only.\<close>

fun replaceFirst :: "string \<Rightarrow> string \<Rightarrow> string \<Rightarrow> string" where
  "replaceFirst pat rep [] = (if pat = [] then rep else [])"
| "replaceFirst pat rep (c # cs) =
     (if prefix pat (c # cs) then rep @ drop (length pat) (c # cs)
      else c # replaceFirst pat rep cs)"

definition padEnd :: "string \<Rightarrow> nat \<Rightarrow> string" where
  "padEnd s n = s @ replicate (n - length s) CHR '' ''"

definition padStart :: "string \<Rightarrow> nat \<Rightarrow> string" where
  "padStart s n = replicate (n - length s) CHR '' '' @ s"

text \<open>\<^verbatim>\<open>xs.join(sep)\<close>.\<close>

fun join :: "string list \<Rightarrow> string \<Rightarrow> string" where
  "join [] sep = []"
| "join [x] sep = x"
| "join (x # y # ys) sep = x @ sep @ join (y # ys) sep"

definition DEFAULT_SPACE :: string where
  "DEFAULT_SPACE = padEnd [] 7"

subsection \<open>getUpgradeVersion\<close>

text \<open>
  \<^verbatim>\<open>optionMaxLenMap\<close>. The first loop visits every own key of a candidate; only
  the three keys below are read afterwards, so the entries written for other keys
  (\<^verbatim>\<open>isLatest\<close>, \<^verbatim>\<open>versionMode\<close>, \<^verbatim>\<open>peerDependencies\<close>) are left out.
\<close>

record optionMaxLenMap =
  maxLatestVersion :: nat
  maxPackage :: nat
  maxVersion :: nat

text \<open>
  One pass of the inner loop over one candidate: each tracked length is recorded
  from the field as it is on entry, and the \<^verbatim>\<open>version\<close> key is then rewritten
  by \<^verbatim>\<open>replace('^', '')\<close>.
\<close>

definition recordLengths :: "optionMaxLenMap \<Rightarrow> UpgradeOption \<Rightarrow> optionMaxLenMap" where
  "recordLengths m c =
     \<lparr>maxLatestVersion = max (maxLatestVersion m) (length (latestVersion c)),
      maxPackage = max (maxPackage m) (length (package c)),
      maxVersion = max (maxVersion m) (length (version c))\<rparr>"

definition stripVersion :: "UpgradeOption \<Rightarrow> UpgradeOption" where
  "stripVersion c = c\<lparr>version := replaceFirst ''^'' [] (version c)\<rparr>"

text \<open>
  The first loop. The candidates are mutated in place, so the loop returns the
  candidates as they are afterwards, next to the widths. The objects of the list
  are taken to be pairwise distinct, as they are in every list \<^verbatim>\<open>upgrade\<close> builds.
\<close>

fun measureLoop ::
  "UpgradeOption list \<Rightarrow> optionMaxLenMap \<Rightarrow> UpgradeOption list \<times> optionMaxLenMap" where
  "measureLoop [] m = ([], m)"
| "measureLoop (c # cs) m =
     (case measureLoop cs (recordLengths m c) of
        (cs', m') \<Rightarrow> (stripVersion c # cs', m'))"

text \<open>
  The two row templates. \<^verbatim>\<open>versionMode || ''\<close> is \<^verbatim>\<open>versionMode\<close> itself for a string.
\<close>

definition latestRow :: "env \<Rightarrow> optionMaxLenMap \<Rightarrow> UpgradeOption \<Rightarrow> string" where
  "latestRow h m c =
     ''  '' @ chalk_white h
        (padEnd (package c @ ''@'' @ versionMode c @ latestVersion c)
           (maxPackage m + length DEFAULT_SPACE + length DEFAULT_SPACE))
     @ padStart (chalk_greenBright h ''latest'') (maxVersion m) @ DEFAULT_SPACE"

definition upgradeRow :: "env \<Rightarrow> optionMaxLenMap \<Rightarrow> UpgradeOption \<Rightarrow> string" where
  "upgradeRow h m c =
     ''  '' @ chalk_white h
        (padEnd (package c) (maxPackage m + length DEFAULT_SPACE) @ DEFAULT_SPACE
         @ padEnd (versionMode c @ version c) (maxVersion m)
         @ ''  ->  '' @ versionMode c @ latestVersion c)
     @ DEFAULT_SPACE"

text \<open>The second loop: the lines pushed to \<^verbatim>\<open>output\<close>.\<close>

fun outputLoop :: "env \<Rightarrow> optionMaxLenMap \<Rightarrow> bool \<Rightarrow> UpgradeOption list \<Rightarrow> string list" where
  "outputLoop h m peer [] = []"
| "outputLoop h m peer (c # cs) =
     (if isLatest c then
        (if peer then outputLoop h m peer cs
         else latestRow h m c # outputLoop h m peer cs)
      else upgradeRow h m c # outputLoop h m peer cs)"

definition initialMaxLen :: optionMaxLenMap where
  "initialMaxLen = \<lparr>maxLatestVersion = 0, maxPackage = 0, maxVersion = 0\<rparr>"

text \<open>The lines of the report, before they are joined.\<close>

definition upgradeVersionLines :: "env \<Rightarrow> UpgradeOption list \<Rightarrow> bool \<Rightarrow> string list" where
  "upgradeVersionLines h opts peer =
     (case measureLoop opts initialMaxLen of
        (opts', m) \<Rightarrow> outputLoop h m peer opts')"

text \<open>
  \<^verbatim>\<open>getUpgradeVersion\<close>: the returned text, and the list as the call leaves it.
\<close>

definition getUpgradeVersion ::
  "env \<Rightarrow> UpgradeOption list \<Rightarrow> bool \<Rightarrow> string \<times> UpgradeOption list" where
  "getUpgradeVersion h opts peer =
     (if opts = [] then ([], opts)
      else (join (upgradeVersionLines h opts peer) ''\<newline>'',
            fst (measureLoop opts initialMaxLen)))"

subsection \<open>getPackagePeerDep\<close>

definition missingMessage :: "string \<Rightarrow> string" where
  "missingMessage peerPackage =
     ''Missing peerDependencies: '' @ peerPackage @ '', check whether it is installed''"

text \<open>
  The first statement: the supplied mapping when there is one (an object is
  truthy, also an empty one), else the parsed output of the command, else the
  empty object. Nothing catches what \<^verbatim>\<open>exec\<close> or \<^verbatim>\<open>JSON.parse\<close> throw.
\<close>

definition resolvePeerDependencies ::
  "env \<Rightarrow> string \<Rightarrow> Dependencies option \<Rightarrow> error + Dependencies" where
  "resolvePeerDependencies h packageName supplied =
     (case supplied of
        Some d \<Rightarrow> Inr d
      | None \<Rightarrow>
          (case exec h (''npm show '' @ packageName @ '' peerDependencies --json'') of
             Inl e \<Rightarrow> Inl e
           | Inr out \<Rightarrow>
               (case JSON_parse h out of
                  Inl e \<Rightarrow> Inl e
                | Inr None \<Rightarrow> Inr []
                | Inr (Some d) \<Rightarrow> Inr d)))"

text \<open>
  The part of the loop body after the two guards: the candidate built for an
  installed peer, or the error of the comparison.
\<close>

definition peerOption ::
  "env \<Rightarrow> Dependencies \<Rightarrow> string \<Rightarrow> string \<Rightarrow> string \<Rightarrow> error + UpgradeOption" where
  "peerOption h deps peerPackage peerVersion currentVersion =
     (let mode = snd (getVersionAndMode h deps peerPackage);
          formatPeerVersion = transformPeerVersion h peerVersion
      in case compareVersions h currentVersion formatPeerVersion of
           Inl e \<Rightarrow> Inl e
         | Inr n \<Rightarrow>
             (let latest = (n \<ge> 0);
                  formatPeerVersion' =
                    (if latest then transformPeerVersion h currentVersion
                     else formatPeerVersion)
              in Inr \<lparr>package = peerPackage,
                      version = currentVersion,
                      latestVersion =
                        (if latest then formatPeerVersion'
                         else getColorVersion h currentVersion formatPeerVersion'),
                      isLatest = latest,
                      versionMode = mode,
                      peerDependencies = None\<rparr>))"

text \<open>
  \<^verbatim>\<open>allDependencies[peerPackage]\<close>. The installed set is a plain object, so the
  read finds an own key first and then the members of \<^verbatim>\<open>Object.prototype\<close>: for
  one of their names that is no own key the value is a function (for
  \<^verbatim>\<open>__proto__\<close> the prototype object), which is truthy and not a string.
\<close>

datatype property = Undefined | Own string | Inherited

definition objectPrototypeMembers :: "string list" where
  "objectPrototypeMembers =
     [''constructor'', ''__defineGetter__'', ''__defineSetter__'', ''hasOwnProperty'',
      ''__lookupGetter__'', ''__lookupSetter__'', ''isPrototypeOf'', ''propertyIsEnumerable'',
      ''toString'', ''valueOf'', ''__proto__'', ''toLocaleString'']"

definition getProperty :: "Dependencies \<Rightarrow> string \<Rightarrow> property" where
  "getProperty deps name =
     (case map_of deps name of
        Some v \<Rightarrow> Own v
      | None \<Rightarrow> if name \<in> set objectPrototypeMembers then Inherited else Undefined)"

text \<open>
  How the loop body ends when the value read is an inherited member: no warning
  is logged, since the value is truthy, and the helpers are called on it.
\<close>

definition inheritedOutcome :: "env \<Rightarrow> Dependencies \<Rightarrow> string \<Rightarrow> string \<Rightarrow> error" where
  "inheritedOutcome h deps peerPackage peerVersion =
     (case helpersOnInherited h deps peerPackage peerVersion of
        Some e \<Rightarrow> e
      | None \<Rightarrow> NonStringVersion peerPackage)"

text \<open>
  The loop over \<^verbatim>\<open>Object.entries(peerDependencies)\<close>, with the list built so far and
  the warnings logged so far. The log is returned also when the loop throws.
\<close>

fun peerLoop ::
  "env \<Rightarrow> Dependencies \<Rightarrow> Dependencies \<Rightarrow> UpgradeOption list \<Rightarrow> string list
     \<Rightarrow> string list \<times> (error + UpgradeOption list)" where
  "peerLoop h deps [] acc log = (log, Inr acc)"
| "peerLoop h deps ((peerPackage, peerVersion) # rest) acc log =
     (if list_ex (\<lambda>c. package c = peerPackage) acc then peerLoop h deps rest acc log
      else
        (case getProperty deps peerPackage of
           Undefined \<Rightarrow> peerLoop h deps rest acc (log @ [missingMessage peerPackage])
         | Own currentVersion \<Rightarrow>
             (if currentVersion = [] then
                peerLoop h deps rest acc (log @ [missingMessage peerPackage])
              else
                (case peerOption h deps peerPackage peerVersion currentVersion of
                   Inl e \<Rightarrow> (log, Inl e)
                 | Inr c \<Rightarrow> peerLoop h deps rest (acc @ [c]) log))
         | Inherited \<Rightarrow> (log, Inl (inheritedOutcome h deps peerPackage peerVersion))))"

definition getPackagePeerDep ::
  "env \<Rightarrow> string \<Rightarrow> Dependencies \<Rightarrow> Dependencies option
     \<Rightarrow> string list \<times> (error + UpgradeOption list)" where
  "getPackagePeerDep h packageName deps supplied =
     (case resolvePeerDependencies h packageName supplied of
        Inl e \<Rightarrow> ([], Inl e)
      | Inr peers \<Rightarrow>
          (if peers = [] then ([], Inr [])
           else peerLoop h deps peers [] []))"

text \<open>
  The installed version of a peer that has an own key: \<^verbatim>\<open>!currentVersion\<close> holds
  for the empty string as it does for \<^verbatim>\<open>undefined\<close>.
\<close>

definition installedVersion :: "Dependencies \<Rightarrow> string \<Rightarrow> string option" where
  "installedVersion deps p = (case map_of deps p of None \<Rightarrow> None | Some cur \<Rightarrow> if cur = [] then None else Some cur)"

text \<open>
  The entries of a peer mapping from which the loop builds a candidate, when it
  throws nothing: those whose name is an own key of the installed set with a
  non-empty version, each name at its first such entry and not among the names
  \<open>seen\<close>.
\<close>

definition installedPeer :: "Dependencies \<Rightarrow> string \<times> string \<Rightarrow> bool" where
  "installedPeer deps e = (case map_of deps (fst e) of None \<Rightarrow> False | Some cur \<Rightarrow> cur \<noteq> [])"

fun firstFrom :: "string set \<Rightarrow> Dependencies \<Rightarrow> Dependencies" where
  "firstFrom seen [] = []"
| "firstFrom seen ((k, v) # es) =
     (if k \<in> seen then firstFrom seen es else (k, v) # firstFrom (insert k seen) es)"

subsection \<open>outputDependencies and upgrade\<close>

text \<open>
  \<^verbatim>\<open>outputDependencies\<close> renders both lists and draws two boxes. It returns the
  boxes and both lists as the rendering leaves them.
\<close>

definition outputDependencies ::
  "env \<Rightarrow> UpgradeOption list \<Rightarrow> UpgradeOption list
     \<Rightarrow> box list \<times> UpgradeOption list \<times> UpgradeOption list" where
  "outputDependencies h outputList peerDepList =
     (case getUpgradeVersion h outputList False of
        (outputInfo, outputList') \<Rightarrow>
          (case getUpgradeVersion h peerDepList True of
             (outputPeerDepInfo, peerDepList') \<Rightarrow>
               ([\<lparr>boxColor = ''blue'', boxText = outputInfo,
                   boxTitle = chalk_blue h ''Components''\<rparr>,
                 \<lparr>boxColor = ''yellow'', boxText = outputPeerDepInfo,
                   boxTitle = chalk_yellow h ''PeerDependencies''\<rparr>],
                outputList', peerDepList')))"

text \<open>
  All the values of a list of results, when none of them is an error; the errors
  among them; and the reason \<^verbatim>\<open>Promise.all\<close> rejects with, which is the one error
  when there is one and otherwise one of several.
\<close>

fun allResults :: "(error + 'a) list \<Rightarrow> error + 'a list" where
  "allResults [] = Inr []"
| "allResults (Inl e # rs) = Inl e"
| "allResults (Inr x # rs) = (case allResults rs of Inl e \<Rightarrow> Inl e | Inr xs \<Rightarrow> Inr (x # xs))"

fun failures :: "(error + 'a) list \<Rightarrow> error list" where
  "failures [] = []"
| "failures (Inl e # rs) = e # failures rs"
| "failures (Inr x # rs) = failures rs"

definition rejection :: "error list \<Rightarrow> error" where
  "rejection es = (case es of [e] \<Rightarrow> e | _ \<Rightarrow> OneOf es)"

text \<open>
  \<^verbatim>\<open>upgrade\<close>, with \<^verbatim>\<open>store.latestVersion\<close> as the argument \<open>storeLatest\<close>. The result
  is the warnings of the peer resolutions it starts, the boxes drawn, and the
  returned list or the error thrown.

  The warnings are kept apart by resolution, one list for each call in the order
  of the calls: a resolution logs its own warnings in that order, in one piece.
  In the first branch the calls follow each other, so the groups do too. In the
  second branch \<^verbatim>\<open>Promise.all\<close> waits for resolutions that were all started
  before: the model says nothing on the order in which two of them log, and on
  rejection nothing on which of the errors is thrown nor on which groups have
  been logged by then.
\<close>

definition upgrade ::
  "env \<Rightarrow> string \<Rightarrow> Upgrade
     \<Rightarrow> string list list \<times> box list \<times> (error + UpgradeOption list)" where
  "upgrade h storeLatest options =
     (if isNextUIAll options then
        (case getVersionAndMode h (allDependencies options) (NEXT_UI h) of
           (currentVersion, mode) \<Rightarrow>
             (let colorVersion = getColorVersion h currentVersion storeLatest
              in case compareVersions h currentVersion storeLatest of
                   Inl e \<Rightarrow> ([], [], Inl e)
                 | Inr n \<Rightarrow>
                     (case getPackagePeerDep h (NEXT_UI h) (allDependencies options) None of
                        (log1, Inl e) \<Rightarrow> ([log1], [], Inl e)
                      | (log1, Inr nextUIPeerDepList) \<Rightarrow>
                          (case getPackagePeerDep h (THEME_UI h) (allDependencies options) None of
                             (log2, Inl e) \<Rightarrow> ([log1, log2], [], Inl e)
                           | (log2, Inr nextUIThemePeerDepList) \<Rightarrow>
                               (let outputList =
                                      [\<lparr>package = NEXT_UI h,
                                        version = currentVersion,
                                        latestVersion = colorVersion,
                                        isLatest = (n \<ge> 0),
                                        versionMode = mode,
                                        peerDependencies = None\<rparr>];
                                    peerDepList = nextUIPeerDepList @ nextUIThemePeerDepList
                                in case outputDependencies h outputList peerDepList of
                                     (boxes, outputList', peerDepList') \<Rightarrow>
                                       ([log1, log2], boxes,
                                        Inr (if \<not> (n \<ge> 0) then
                                               outputList' @ filter (\<lambda>c. \<not> isLatest c) peerDepList'
                                             else [])))))))
      else
        (let transformUpgradeOptionList =
               map (\<lambda>c. c\<lparr>latestVersion := getColorVersion h (version c) (latestVersion c)\<rparr>)
                 (upgradeOptionList options);
             calls =
               map (\<lambda>upgradeOption.
                      getPackagePeerDep h (package upgradeOption) (allDependencies options)
                        (peerDependencies upgradeOption))
                 (upgradeOptionList options);
             logs = map fst calls
         in case allResults (map snd calls) of
              Inl e \<Rightarrow> (logs, [], Inl (rejection (failures (map snd calls))))
            | Inr upgradePeerList \<Rightarrow>
                (case outputDependencies h transformUpgradeOptionList (concat upgradePeerList) of
                   (boxes, outputList', peerDepList') \<Rightarrow>
                     (logs, boxes,
                      Inr (filter (\<lambda>upgradeOption. \<not> isLatest upgradeOption)
                             (outputList' @ peerDepList'))))))"

subsection \<open>An example environment\<close>

text \<open>
  A small instance of the collaborators, used to run the model on concrete
  inputs: versions are compared through a table, the diff highlight is a pair of
  brackets, colours are switched off, and the registry knows four packages.
\<close>

definition exampleTransform :: "string \<Rightarrow> string" where
  "exampleTransform v = dropWhile (\<lambda>c. c \<in> set ''^~>='') v"

definition exampleCompare :: "string \<Rightarrow> string \<Rightarrow> error + int" where
  "exampleCompare a b =
     (let a' = exampleTransform a; b' = exampleTransform b
      in if a' = [] then Inl (VersionError a)
         else if b' = [] then Inl (VersionError b)
         else if a' = b' then Inr 0
         else if (a', b') \<in> set [(''1.0.0'', ''1.2.0''), (''2.5.0'', ''3.0.0''), (''17.0.2'', ''18'')]
           then Inr (- 1)
         else Inr 1)"

definition exampleEnv :: env where
  "exampleEnv =
     \<lparr>NEXT_UI = ''@nextui-org/react'',
      THEME_UI = ''@nextui-org/theme'',
      compareVersions = exampleCompare,
      getVersionAndMode =
        (\<lambda>deps name. case map_of deps name of
             None \<Rightarrow> ([], [])
           | Some v \<Rightarrow> (exampleTransform v, takeWhile (\<lambda>c. c \<in> set ''^~'') v)),
      getColorVersion = (\<lambda>cur tgt. ''['' @ tgt @ '']''),
      transformPeerVersion = exampleTransform,
      helpersOnInherited =
        (\<lambda>deps name range. Some (TypeError ''allDependencies[packageName].replace is not a function'')),
      exec =
        (\<lambda>cmd. if cmd = ''npm show @nextui-org/react peerDependencies --json''
                then Inr ''{\"react\":\">=18\",\"react-dom\":\">=18\"}''
              else if cmd = ''npm show @nextui-org/theme peerDependencies --json''
                then Inr ''null''
              else if cmd = ''npm show @nextui-org/button peerDependencies --json''
                then Inr ''{}''
              else if cmd = ''npm show @nextui-org/system peerDependencies --json''
                then Inr []
              else Inl (ExecError cmd)),
      JSON_parse =
        (\<lambda>s. if s = ''{\"react\":\">=18\",\"react-dom\":\">=18\"}''
                then Inr (Some [(''react'', ''>=18''), (''react-dom'', ''>=18'')])
              else if s = ''null'' then Inr None
              else if s = ''{}'' then Inr (Some [])
              else Inl (SyntaxError s)),
      chalk_white = (\<lambda>s. s),
      chalk_greenBright = (\<lambda>s. s),
      chalk_blue = (\<lambda>s. s),
      chalk_yellow = (\<lambda>s. s)\<rparr>"

text \<open>Three candidates.\<close>

definition exampleTilde :: UpgradeOption where
  "exampleTilde = \<lparr>package = ''a'', version = ''~1.0.0'', latestVersion = ''1.2.0'',
     isLatest = False, versionMode = ''~'', peerDependencies = None\<rparr>"

definition exampleCaret :: UpgradeOption where
  "exampleCaret = \<lparr>package = ''react'', version = ''^17.0.2'', latestVersion = ''18'',
     isLatest = False, versionMode = ''^'', peerDependencies = None\<rparr>"

definition exampleLatest :: UpgradeOption where
  "exampleLatest = \<lparr>package = ''framer-motion'', version = ''10.0.0'', latestVersion = ''10.0.0'',
     isLatest = True, versionMode = ''^'', peerDependencies = None\<rparr>"

text \<open>
  An installed set, a peer mapping that names \<open>react\<close> twice and a peer that is not
  installed, and the candidate the resolver builds from them.
\<close>

definition exampleInstalled :: Dependencies where
  "exampleInstalled = [(''@nextui-org/react'', ''^1.0.0''), (''react'', ''^17.0.2'')]"

definition examplePeers :: Dependencies where
  "examplePeers = [(''react'', ''>=18''), (''react'', ''^17.0.2''), (''react-dom'', ''>=18'')]"

definition examplePeerOption :: UpgradeOption where
  "examplePeerOption = \<lparr>package = ''react'', version = ''^17.0.2'', latestVersion = ''[18]'',
     isLatest = False, versionMode = ''^'', peerDependencies = None\<rparr>"

text \<open>
  An input of each shape: the umbrella package installed, and one selected
  component that carries its own peer mapping.
\<close>

definition exampleUmbrella :: Upgrade where
  "exampleUmbrella = \<lparr>isNextUIAll = True, allDependencies = exampleInstalled, upgradeOptionList = []\<rparr>"

definition exampleButton :: UpgradeOption where
  "exampleButton = \<lparr>package = ''@nextui-org/button'', version = ''2.0.0'', latestVersion = ''2.0.0'',
     isLatest = True, versionMode = ''^'', peerDependencies = Some examplePeers\<rparr>"

definition exampleComponents :: Upgrade where
  "exampleComponents = \<lparr>isNextUIAll = False, allDependencies = exampleInstalled,
     upgradeOptionList = [exampleButton]\<rparr>"

text \<open>An installed set in which one peer of the umbrella package is stale and one is not.\<close>

definition exampleProject :: Dependencies where
  "exampleProject =
     [(''@nextui-org/react'', ''^1.0.0''), (''react'', ''^17.0.2''), (''react-dom'', ''18.2.0'')]"

section \<open>Properties\<close>

subsection \<open>Auxiliary facts about the renderer\<close>

lemma replaceFirst_caret: "replaceFirst ''^'' [] v = remove1 CHR ''^'' v"
  by (induction v) auto

lemma measureLoop_eq: "measureLoop cs m = (map stripVersion cs, foldl recordLengths m cs)"
  by (induction cs arbitrary: m) auto

lemma maxVersion_foldl:
  "maxVersion (foldl recordLengths m cs) = fold max (map (\<lambda>c. length (version c)) cs) (maxVersion m)"
  by (induction cs arbitrary: m) (auto simp: recordLengths_def max.commute)

lemma maxVersion_measureLoop:
  "maxVersion (snd (measureLoop cs m)) = Max (set (maxVersion m # map (\<lambda>c. length (version c)) cs))"
  unfolding Max.set_eq_fold by (simp add: measureLoop_eq maxVersion_foldl)

lemma isLatest_stripVersion [simp]: "isLatest (stripVersion c) = isLatest c"
  by (simp add: stripVersion_def)

lemma length_outputLoop:
  "length (outputLoop h m peer cs) = length cs - (if peer then length (filter isLatest cs) else 0)"
  by (induction cs) (auto simp: Suc_diff_le)

lemma outputLoop_peer:
  "outputLoop h m True cs = map (upgradeRow h m) (filter (\<lambda>c. \<not> isLatest c) cs)"
  by (induction cs) auto

lemma snd_getUpgradeVersion: "snd (getUpgradeVersion h opts peer) = map stripVersion opts"
  by (simp add: getUpgradeVersion_def measureLoop_eq)

lemma join_newlines:
  "ls \<noteq> [] \<Longrightarrow> Suc (count_list (join ls ''\<newline>'') CHR ''\<newline>'')
     = length ls + sum_list (map (\<lambda>l. count_list l CHR ''\<newline>'') ls)"
  by (induction ls "''\<newline>''" rule: join.induct) auto

lemma remove1_twice: "count_list v x \<le> 1 \<Longrightarrow> remove1 x (remove1 x v) = remove1 x v"
  by (induction v) (auto simp: remove1_idem count_list_0_iff split: if_splits)

lemma replaceFirst_caret_absent: "CHR ''^'' \<notin> set v \<Longrightarrow> replaceFirst ''^'' [] v = v"
  by (simp add: replaceFirst_caret remove1_idem)

lemma replaceFirst_caret_first:
  "CHR ''^'' \<notin> set a \<Longrightarrow> replaceFirst ''^'' [] (a @ CHR ''^'' # b) = a @ b"
  by (induction a) (auto simp: replaceFirst_caret)

lemma example_report:
  "fst (getUpgradeVersion exampleEnv [exampleCaret, exampleLatest] False)
      = ''  react                      ^17.0.2  ->  ^18       \<newline>  framer-motion@^10.0.0       latest       ''
   \<and> fst (getUpgradeVersion exampleEnv [exampleCaret, exampleLatest] True)
      = ''  react                      ^17.0.2  ->  ^18       ''"
  by (simp add: getUpgradeVersion_def upgradeVersionLines_def measureLoop_eq recordLengths_def
        initialMaxLen_def stripVersion_def upgradeRow_def latestRow_def exampleEnv_def padEnd_def
        padStart_def DEFAULT_SPACE_def exampleCaret_def exampleLatest_def eval_nat_numeral)

subsection \<open>Rendering\<close>

text \<open>
  C8. Rendering the empty list returns the empty string. For a non-empty list the
  returned text is the pushed lines joined by newlines, and the number of lines
  is the length of the list, less the number of candidates with \<open>isLatest\<close> when
  the list is rendered as the peer section and only then. The text has one
  newline between two lines, so its newlines are one fewer than its lines, not
  counting newlines that stand inside a row. In the peer section the lines are
  exactly the rows of the candidates that are not latest.
\<close>

theorem getUpgradeVersion_line_count:
  "fst (getUpgradeVersion h [] peer) = []
   \<and> (opts \<noteq> [] \<longrightarrow>
        fst (getUpgradeVersion h opts peer) = join (upgradeVersionLines h opts peer) ''\<newline>''
        \<and> length (upgradeVersionLines h opts peer)
            = length opts - (if peer then length (filter isLatest opts) else 0)
        \<and> (upgradeVersionLines h opts peer \<noteq> [] \<longrightarrow>
             Suc (count_list (fst (getUpgradeVersion h opts peer)) CHR ''\<newline>'')
               = length (upgradeVersionLines h opts peer)
                 + sum_list (map (\<lambda>l. count_list l CHR ''\<newline>'') (upgradeVersionLines h opts peer))))
   \<and> upgradeVersionLines h opts True
        = map (upgradeRow h (snd (measureLoop opts initialMaxLen)))
            (filter (\<lambda>c. \<not> isLatest c) (map stripVersion opts))"
proof -
  have a: "fst (getUpgradeVersion h [] peer) = []"
    by (simp add: getUpgradeVersion_def)
  have b: "fst (getUpgradeVersion h opts peer) = join (upgradeVersionLines h opts peer) ''\<newline>''"
    if "opts \<noteq> []"
    using that by (simp add: getUpgradeVersion_def)
  have "filter isLatest (map stripVersion opts) = map stripVersion (filter isLatest opts)"
    by (simp add: filter_map comp_def)
  then have c: "length (upgradeVersionLines h opts peer)
      = length opts - (if peer then length (filter isLatest opts) else 0)"
    by (simp add: upgradeVersionLines_def measureLoop_eq length_outputLoop)
  have d: "upgradeVersionLines h opts True
        = map (upgradeRow h (snd (measureLoop opts initialMaxLen)))
            (filter (\<lambda>c. \<not> isLatest c) (map stripVersion opts))"
    by (simp add: upgradeVersionLines_def measureLoop_eq outputLoop_peer)
  have e: "Suc (count_list (fst (getUpgradeVersion h opts peer)) CHR ''\<newline>'')
               = length (upgradeVersionLines h opts peer)
                 + sum_list (map (\<lambda>l. count_list l CHR ''\<newline>'') (upgradeVersionLines h opts peer))"
    if "opts \<noteq> []" "upgradeVersionLines h opts peer \<noteq> []"
    using join_newlines [OF that(2)] b [OF that(1)] by simp
  from a b c d e show ?thesis by blast
qed

theorem getUpgradeVersion_line_count_witness:
  "[exampleCaret, exampleLatest] \<noteq> []
   \<and> length (upgradeVersionLines exampleEnv [exampleCaret, exampleLatest] False) = 2
   \<and> length (upgradeVersionLines exampleEnv [exampleCaret, exampleLatest] True) = 1
   \<and> fst (getUpgradeVersion exampleEnv [exampleCaret, exampleLatest] False)
      = ''  react                      ^17.0.2  ->  ^18       \<newline>  framer-motion@^10.0.0       latest       ''
   \<and> fst (getUpgradeVersion exampleEnv [exampleCaret, exampleLatest] True)
      = ''  react                      ^17.0.2  ->  ^18       ''"
proof -
  have ne: "[exampleCaret, exampleLatest] \<noteq> []" by simp
  have l: "isLatest exampleLatest" "\<not> isLatest exampleCaret"
    by (simp_all add: exampleLatest_def exampleCaret_def)
  from getUpgradeVersion_line_count [of exampleEnv False "[exampleCaret, exampleLatest]"]
    getUpgradeVersion_line_count [of exampleEnv True "[exampleCaret, exampleLatest]"] ne l
  have "length (upgradeVersionLines exampleEnv [exampleCaret, exampleLatest] False) = 2
   \<and> length (upgradeVersionLines exampleEnv [exampleCaret, exampleLatest] True) = 1"
    by simp
  with example_report show ?thesis by simp
qed

text \<open>
  C6, as amended. The normalization of a candidate's version is idempotent on
  every version with at most one caret, it removes a leading caret, and it keeps
  a leading tilde in place.
\<close>

theorem stripVersion_idempotent_caret_only:
  "(count_list (version c) CHR ''^'' \<le> 1 \<longrightarrow> stripVersion (stripVersion c) = stripVersion c)
   \<and> (version c = CHR ''^'' # r \<longrightarrow> version (stripVersion c) = r)
   \<and> (version c = CHR ''~'' # r \<longrightarrow>
        version (stripVersion c) = CHR ''~'' # version (stripVersion (c\<lparr>version := r\<rparr>)))"
  by (auto simp: stripVersion_def replaceFirst_caret remove1_twice)

theorem stripVersion_idempotent_caret_only_witness:
  "count_list ''^1.2.3'' CHR ''^'' \<le> 1
   \<and> stripVersion (stripVersion \<lparr>package = ''react'', version = ''^1.2.3'', latestVersion = ''1.2.4'',
         isLatest = False, versionMode = ''^'', peerDependencies = None\<rparr>)
      = \<lparr>package = ''react'', version = ''1.2.3'', latestVersion = ''1.2.4'',
         isLatest = False, versionMode = ''^'', peerDependencies = None\<rparr>
   \<and> version (stripVersion \<lparr>package = ''react'', version = ''^1.2.3'', latestVersion = ''1.2.4'',
         isLatest = False, versionMode = ''^'', peerDependencies = None\<rparr>) = ''1.2.3''
   \<and> version (stripVersion \<lparr>package = ''react'', version = ''~1.2.3'', latestVersion = ''1.2.4'',
         isLatest = False, versionMode = ''~'', peerDependencies = None\<rparr>) = ''~1.2.3''"
  using stripVersion_idempotent_caret_only
    [of "\<lparr>package = ''react'', version = ''^1.2.3'', latestVersion = ''1.2.4'',
         isLatest = False, versionMode = ''^'', peerDependencies = None\<rparr>" "''1.2.3''"]
    stripVersion_idempotent_caret_only
    [of "\<lparr>package = ''react'', version = ''~1.2.3'', latestVersion = ''1.2.4'',
         isLatest = False, versionMode = ''~'', peerDependencies = None\<rparr>" "''1.2.3''"]
  by (simp add: stripVersion_def)

text \<open>
  C6 as stated fails for a tilde: the version \<open>~1.2.3\<close> comes out unchanged.
\<close>

theorem stripVersion_keeps_tilde_counterexample:
  "version (stripVersion \<lparr>package = ''react'', version = ''~1.2.3'', latestVersion = ''1.2.4'',
         isLatest = False, versionMode = ''~'', peerDependencies = None\<rparr>) = ''~1.2.3''
   \<and> version (stripVersion \<lparr>package = ''react'', version = ''~1.2.3'', latestVersion = ''1.2.4'',
         isLatest = False, versionMode = ''~'', peerDependencies = None\<rparr>) \<noteq> ''1.2.3''"
  by (simp add: stripVersion_def)

text \<open>
  C9. The normalization done while rendering removes the first caret of the
  version, wherever it stands, and nothing else: a version without a caret is
  left as it is. So a candidate whose version is a tilde followed by a caret-free
  remainder keeps its version, and when it is not latest and its \<open>versionMode\<close> is
  the tilde, its row in the report shows the two tildes one after the other.
\<close>

theorem stripVersion_first_caret_only:
  "(CHR ''^'' \<notin> set (version c) \<longrightarrow> stripVersion c = c)
   \<and> (version c = a @ CHR ''^'' # b \<and> CHR ''^'' \<notin> set a \<longrightarrow> stripVersion c = c\<lparr>version := a @ b\<rparr>)
   \<and> (c \<in> set opts \<and> \<not> isLatest c \<and> versionMode c = ''~'' \<and> version c = CHR ''~'' # r
        \<and> CHR ''^'' \<notin> set r \<longrightarrow>
        stripVersion c = c
        \<and> upgradeRow h (snd (measureLoop opts initialMaxLen)) c \<in> set (upgradeVersionLines h opts peer)
        \<and> upgradeRow h m c =
            ''  '' @ chalk_white h
              (padEnd (package c) (maxPackage m + 7) @ ''       ''
               @ padEnd (''~~'' @ r) (maxVersion m) @ ''  ->  ~'' @ latestVersion c)
            @ ''       '')"
proof (intro conjI impI)
  show "stripVersion c = c" if "CHR ''^'' \<notin> set (version c)"
    using that by (simp add: stripVersion_def replaceFirst_caret_absent)
  show "stripVersion c = c\<lparr>version := a @ b\<rparr>"
    if "version c = a @ CHR ''^'' # b \<and> CHR ''^'' \<notin> set a"
    using that by (simp add: stripVersion_def replaceFirst_caret_first)
  assume tilde: "c \<in> set opts \<and> \<not> isLatest c \<and> versionMode c = ''~''
      \<and> version c = CHR ''~'' # r \<and> CHR ''^'' \<notin> set r"
  then show same: "stripVersion c = c"
    by (simp add: stripVersion_def replaceFirst_caret_absent)
  have "upgradeRow h w (stripVersion c) \<in> set (outputLoop h w peer (map stripVersion opts))" for w
    using tilde by (induction opts) auto
  then show "upgradeRow h (snd (measureLoop opts initialMaxLen)) c
      \<in> set (upgradeVersionLines h opts peer)"
    using same by (simp add: upgradeVersionLines_def measureLoop_eq)
  have len: "length DEFAULT_SPACE = 7"
    by (simp add: DEFAULT_SPACE_def padEnd_def)
  have sp: "DEFAULT_SPACE = ''       ''"
    by (simp add: DEFAULT_SPACE_def padEnd_def eval_nat_numeral)
  show "upgradeRow h m c =
            ''  '' @ chalk_white h
              (padEnd (package c) (maxPackage m + 7) @ ''       ''
               @ padEnd (''~~'' @ r) (maxVersion m) @ ''  ->  ~'' @ latestVersion c)
            @ ''       ''"
    unfolding upgradeRow_def len using tilde by (simp add: sp)
qed

theorem stripVersion_first_caret_only_witness:
  "CHR ''^'' \<notin> set ''1.0.0''
   \<and> stripVersion exampleTilde = exampleTilde
   \<and> upgradeRow exampleEnv (snd (measureLoop [exampleTilde] initialMaxLen)) exampleTilde
        \<in> set (upgradeVersionLines exampleEnv [exampleTilde] False)
   \<and> upgradeRow exampleEnv (snd (measureLoop [exampleTilde] initialMaxLen)) exampleTilde
       = ''  a              ~~1.0.0  ->  ~1.2.0       ''
   \<and> stripVersion (exampleTilde\<lparr>version := ''1.^0^''\<rparr>) = exampleTilde\<lparr>version := ''1.0^''\<rparr>"
proof -
  have hyp: "exampleTilde \<in> set [exampleTilde] \<and> \<not> isLatest exampleTilde
      \<and> versionMode exampleTilde = ''~'' \<and> version exampleTilde = CHR ''~'' # ''1.0.0''
      \<and> CHR ''^'' \<notin> set ''1.0.0''"
    by (simp add: exampleTilde_def)
  have hyp2: "version (exampleTilde\<lparr>version := ''1.^0^''\<rparr>) = ''1.'' @ CHR ''^'' # ''0^''
      \<and> CHR ''^'' \<notin> set ''1.''"
    by simp
  have ev: "upgradeRow exampleEnv (snd (measureLoop [exampleTilde] initialMaxLen)) exampleTilde
       = ''  a              ~~1.0.0  ->  ~1.2.0       ''"
    by (simp add: exampleTilde_def initialMaxLen_def recordLengths_def upgradeRow_def
          exampleEnv_def padEnd_def DEFAULT_SPACE_def eval_nat_numeral)
  from stripVersion_first_caret_only
      [of exampleTilde "[]" "[]" "[exampleTilde]" "''1.0.0''" exampleEnv False
          "snd (measureLoop [exampleTilde] initialMaxLen)"] hyp
  have "stripVersion exampleTilde = exampleTilde
     \<and> upgradeRow exampleEnv (snd (measureLoop [exampleTilde] initialMaxLen)) exampleTilde
        \<in> set (upgradeVersionLines exampleEnv [exampleTilde] False)"
    by blast
  moreover from stripVersion_first_caret_only
      [of "exampleTilde\<lparr>version := ''1.^0^''\<rparr>" "''1.''" "''0^''"] hyp2
  have "stripVersion (exampleTilde\<lparr>version := ''1.^0^''\<rparr>) = exampleTilde\<lparr>version := ''1.0^''\<rparr>"
    by simp
  ultimately show ?thesis using ev by simp
qed

text \<open>
  C10. For a non-empty list the width of the version column is the greatest
  length among the versions as they are passed in, before any caret is removed.
  Hence, when every version of that greatest length contains a caret, the width
  is strictly greater than the length of each version as it is rendered.
\<close>

theorem maxVersion_recorded_before_strip:
  "opts \<noteq> [] \<longrightarrow>
     maxVersion (snd (measureLoop opts initialMaxLen)) = Max (set (map (\<lambda>c. length (version c)) opts))
     \<and> ((\<forall>c \<in> set opts. length (version c) = Max (set (map (\<lambda>c. length (version c)) opts))
            \<longrightarrow> CHR ''^'' \<in> set (version c))
          \<longrightarrow> (\<forall>c \<in> set (fst (measureLoop opts initialMaxLen)).
                 length (version c) < maxVersion (snd (measureLoop opts initialMaxLen))))"
proof
  assume ne: "opts \<noteq> []"
  let ?W = "Max (set (map (\<lambda>c. length (version c)) opts))"
  have w: "maxVersion (snd (measureLoop opts initialMaxLen)) = ?W"
  proof -
    have "Max (set (0 # map (\<lambda>c. length (version c)) opts)) = ?W"
      using ne by (simp add: max_def)
    then show ?thesis by (simp add: maxVersion_measureLoop initialMaxLen_def)
  qed
  have le: "length (version c) \<le> ?W" if "c \<in> set opts" for c
    using that by (simp add: Max_ge)
  have strip: "length (version (stripVersion c)) < ?W"
    if all: "\<forall>c \<in> set opts. length (version c) = ?W \<longrightarrow> CHR ''^'' \<in> set (version c)"
      and c: "c \<in> set opts" for c
  proof (cases "CHR ''^'' \<in> set (version c)")
    case True
    then have "length (version (stripVersion c)) < length (version c)"
      by (simp add: stripVersion_def replaceFirst_caret length_remove1)
         (cases "version c", auto)
    with le [OF c] show ?thesis by simp
  next
    case False
    with all c have "length (version c) \<noteq> ?W" by blast
    with le [OF c] False show ?thesis
      by (simp add: stripVersion_def replaceFirst_caret_absent)
  qed
  show "maxVersion (snd (measureLoop opts initialMaxLen)) = ?W
     \<and> ((\<forall>c \<in> set opts. length (version c) = ?W \<longrightarrow> CHR ''^'' \<in> set (version c))
          \<longrightarrow> (\<forall>c \<in> set (fst (measureLoop opts initialMaxLen)).
                 length (version c) < maxVersion (snd (measureLoop opts initialMaxLen))))"
    using w strip by (auto simp: measureLoop_eq)
qed

theorem maxVersion_recorded_before_strip_witness:
  "[exampleCaret, exampleLatest] \<noteq> []
   \<and> maxVersion (snd (measureLoop [exampleCaret, exampleLatest] initialMaxLen)) = 7
   \<and> map (\<lambda>c. length (version c)) (fst (measureLoop [exampleCaret, exampleLatest] initialMaxLen)) = [6, 6]
   \<and> list_all (\<lambda>c. length (version c) < maxVersion (snd (measureLoop [exampleCaret, exampleLatest] initialMaxLen)))
        (fst (measureLoop [exampleCaret, exampleLatest] initialMaxLen))"
proof -
  have mx: "Max (set (map (\<lambda>c. length (version c)) [exampleCaret, exampleLatest])) = 7"
    by (simp add: exampleCaret_def exampleLatest_def)
  have hyp: "\<forall>c \<in> set [exampleCaret, exampleLatest].
      length (version c) = Max (set (map (\<lambda>c. length (version c)) [exampleCaret, exampleLatest]))
      \<longrightarrow> CHR ''^'' \<in> set (version c)"
    unfolding mx by (simp add: exampleCaret_def exampleLatest_def)
  have ev: "map (\<lambda>c. length (version c)) (fst (measureLoop [exampleCaret, exampleLatest] initialMaxLen)) = [6, 6]"
    by (simp add: exampleCaret_def exampleLatest_def stripVersion_def)
  from maxVersion_recorded_before_strip [of "[exampleCaret, exampleLatest]"] hyp
  have "maxVersion (snd (measureLoop [exampleCaret, exampleLatest] initialMaxLen))
          = Max (set (map (\<lambda>c. length (version c)) [exampleCaret, exampleLatest]))
     \<and> (\<forall>c \<in> set (fst (measureLoop [exampleCaret, exampleLatest] initialMaxLen)).
           length (version c) < maxVersion (snd (measureLoop [exampleCaret, exampleLatest] initialMaxLen)))"
    by blast
  then show ?thesis using mx ev by (simp add: list_all_iff)
qed

subsection \<open>Auxiliary facts about the peer resolver\<close>

lemma peerOption_package: "peerOption h deps p v cur = Inr c \<Longrightarrow> package c = p"
  by (auto simp: peerOption_def Let_def split: sum.splits)

lemma peerOption_fields:
  assumes "peerOption h deps p v cur = Inr c"
  shows "\<exists>n. compareVersions h cur (transformPeerVersion h v) = Inr n
           \<and> package c = p \<and> version c = cur
           \<and> versionMode c = snd (getVersionAndMode h deps p)
           \<and> isLatest c = (n \<ge> 0)
           \<and> latestVersion c = (if n \<ge> 0 then transformPeerVersion h cur
                                 else getColorVersion h cur (transformPeerVersion h v))"
proof -
  from assms obtain n where n: "compareVersions h cur (transformPeerVersion h v) = Inr n"
    by (auto simp: peerOption_def Let_def split: sum.splits)
  with assms have ceq: "c = \<lparr>package = p, version = cur,
        latestVersion = (if n \<ge> 0 then transformPeerVersion h cur
                         else getColorVersion h cur (transformPeerVersion h v)),
        isLatest = (n \<ge> 0), versionMode = snd (getVersionAndMode h deps p),
        peerDependencies = None\<rparr>"
    by (auto simp: peerOption_def Let_def)
  have "package c = p" "version c = cur" "versionMode c = snd (getVersionAndMode h deps p)"
    "isLatest c = (n \<ge> 0)"
    "latestVersion c = (if n \<ge> 0 then transformPeerVersion h cur
                         else getColorVersion h cur (transformPeerVersion h v))"
    by (subst ceq, simp)+
  with n show ?thesis by blast
qed

lemma getProperty_Own: "getProperty deps p = Own cur \<longleftrightarrow> map_of deps p = Some cur"
  by (auto simp: getProperty_def split: option.splits)

lemma getProperty_Undefined:
  "getProperty deps p = Undefined \<longleftrightarrow> map_of deps p = None \<and> p \<notin> set objectPrototypeMembers"
  by (auto simp: getProperty_def split: option.splits)

text \<open>The three ways in which one pass of the loop goes on to the next entry.\<close>

lemma peerLoop_step:
  assumes "peerLoop h deps ((p, v) # es) acc log = (log', Inr cs)"
  obtains
    (skip) "p \<in> package ` set acc" "peerLoop h deps es acc log = (log', Inr cs)"
  | (warn) "p \<notin> package ` set acc" "installedVersion deps p = None"
      "peerLoop h deps es acc (log @ [missingMessage p]) = (log', Inr cs)"
  | (push) c0 cur where "p \<notin> package ` set acc" "map_of deps p = Some cur" "cur \<noteq> []"
      "peerOption h deps p v cur = Inr c0"
      "peerLoop h deps es (acc @ [c0]) log = (log', Inr cs)"
proof (cases "list_ex (\<lambda>c. package c = p) acc")
  case True
  then have "p \<in> package ` set acc" by (auto simp: list_ex_iff)
  moreover from assms True have "peerLoop h deps es acc log = (log', Inr cs)" by simp
  ultimately show ?thesis by (rule skip)
next
  case False
  then have pout: "p \<notin> package ` set acc" by (auto simp: list_ex_iff)
  show ?thesis
  proof (cases "getProperty deps p")
    case Undefined
    then have "installedVersion deps p = None"
      by (simp add: installedVersion_def getProperty_Undefined)
    moreover from assms False Undefined
    have "peerLoop h deps es acc (log @ [missingMessage p]) = (log', Inr cs)" by simp
    ultimately show ?thesis using pout by (intro warn)
  next
    case (Own cur)
    then have m: "map_of deps p = Some cur" by (simp add: getProperty_Own)
    show ?thesis
    proof (cases "cur = []")
      case True
      with m have "installedVersion deps p = None" by (simp add: installedVersion_def)
      moreover from assms False Own True
      have "peerLoop h deps es acc (log @ [missingMessage p]) = (log', Inr cs)" by simp
      ultimately show ?thesis using pout by (intro warn)
    next
      case ne: False
      with assms False Own obtain c0 where "peerOption h deps p v cur = Inr c0"
        "peerLoop h deps es (acc @ [c0]) log = (log', Inr cs)"
        by (auto split: sum.splits)
      with pout m ne show ?thesis by (intro push)
    qed
  next
    case Inherited
    with assms False show ?thesis by simp
  qed
qed

lemma peerLoop_new:
  "peerLoop h deps es acc log = (log', Inr cs) \<Longrightarrow>
     \<exists>new. cs = acc @ new \<and> distinct (map package new)
       \<and> (\<forall>c \<in> set new. package c \<notin> package ` set acc
            \<and> (\<exists>v cur. map_of es (package c) = Some v \<and> map_of deps (package c) = Some cur
                 \<and> cur \<noteq> [] \<and> peerOption h deps (package c) v cur = Inr c))"
proof (induction es arbitrary: acc log)
  case Nil
  then show ?case by simp
next
  case (Cons e es)
  obtain p v where e: "e = (p, v)" by (cases e)
  from Cons.prems have step: "peerLoop h deps ((p, v) # es) acc log = (log', Inr cs)"
    by (simp add: e)
  from step show ?case
  proof (cases rule: peerLoop_step)
    case skip
    from Cons.IH [OF skip(2)] obtain new where new: "cs = acc @ new" "distinct (map package new)"
      "\<forall>c \<in> set new. package c \<notin> package ` set acc
            \<and> (\<exists>v cur. map_of es (package c) = Some v \<and> map_of deps (package c) = Some cur
                 \<and> cur \<noteq> [] \<and> peerOption h deps (package c) v cur = Inr c)"
      by blast
    have "\<forall>c \<in> set new. package c \<notin> package ` set acc
            \<and> (\<exists>v cur. map_of (e # es) (package c) = Some v \<and> map_of deps (package c) = Some cur
                 \<and> cur \<noteq> [] \<and> peerOption h deps (package c) v cur = Inr c)"
    proof
      fix c assume c: "c \<in> set new"
      with new(3) skip(1) have "package c \<noteq> p" by blast
      with new(3) c show "package c \<notin> package ` set acc
            \<and> (\<exists>v cur. map_of (e # es) (package c) = Some v \<and> map_of deps (package c) = Some cur
                 \<and> cur \<noteq> [] \<and> peerOption h deps (package c) v cur = Inr c)"
        by (simp add: e)
    qed
    with new(1,2) show ?thesis by blast
  next
    case warn
    from Cons.IH [OF warn(3)] obtain new where new: "cs = acc @ new" "distinct (map package new)"
      "\<forall>c \<in> set new. package c \<notin> package ` set acc
            \<and> (\<exists>v cur. map_of es (package c) = Some v \<and> map_of deps (package c) = Some cur
                 \<and> cur \<noteq> [] \<and> peerOption h deps (package c) v cur = Inr c)"
      by blast
    have "\<forall>c \<in> set new. package c \<notin> package ` set acc
            \<and> (\<exists>v cur. map_of (e # es) (package c) = Some v \<and> map_of deps (package c) = Some cur
                 \<and> cur \<noteq> [] \<and> peerOption h deps (package c) v cur = Inr c)"
    proof
      fix c assume c: "c \<in> set new"
      with new(3) warn(2) have "package c \<noteq> p"
        by (auto simp: installedVersion_def split: option.splits if_splits)
      with new(3) c show "package c \<notin> package ` set acc
            \<and> (\<exists>v cur. map_of (e # es) (package c) = Some v \<and> map_of deps (package c) = Some cur
                 \<and> cur \<noteq> [] \<and> peerOption h deps (package c) v cur = Inr c)"
        by (simp add: e)
    qed
    with new(1,2) show ?thesis by blast
  next
    case (push c0 cur)
    have pc0: "package c0 = p" using push(4) by (rule peerOption_package)
    from Cons.IH [OF push(5)] obtain new where new: "cs = (acc @ [c0]) @ new"
      "distinct (map package new)"
      "\<forall>c \<in> set new. package c \<notin> package ` set (acc @ [c0])
            \<and> (\<exists>v cur. map_of es (package c) = Some v \<and> map_of deps (package c) = Some cur
                 \<and> cur \<noteq> [] \<and> peerOption h deps (package c) v cur = Inr c)"
      by blast
    have a: "cs = acc @ (c0 # new)" using new(1) by simp
    have b: "distinct (map package (c0 # new))"
      using new(2,3) pc0 by auto
    have "\<forall>c \<in> set (c0 # new). package c \<notin> package ` set acc
            \<and> (\<exists>v cur. map_of (e # es) (package c) = Some v \<and> map_of deps (package c) = Some cur
                 \<and> cur \<noteq> [] \<and> peerOption h deps (package c) v cur = Inr c)"
    proof
      fix c assume c: "c \<in> set (c0 # new)"
      show "package c \<notin> package ` set acc
            \<and> (\<exists>v cur. map_of (e # es) (package c) = Some v \<and> map_of deps (package c) = Some cur
                 \<and> cur \<noteq> [] \<and> peerOption h deps (package c) v cur = Inr c)"
      proof (cases "c = c0")
        case True
        with pc0 push(1-4) show ?thesis by (simp add: e)
      next
        case False
        with c have cn: "c \<in> set new" by simp
        with new(3) pc0 have "package c \<noteq> p" by auto
        with new(3) cn show ?thesis by (simp add: e)
      qed
    qed
    with a b show ?thesis by blast
  qed
qed

text \<open>
  The candidates of a returning loop, one for each entry of \<^const>\<open>firstFrom\<close>, in
  the same order.
\<close>

lemma peerLoop_candidates:
  "peerLoop h deps es acc log = (log', Inr cs) \<Longrightarrow>
     \<exists>new. cs = acc @ new
       \<and> list_all2 (\<lambda>e c. \<exists>cur. map_of deps (fst e) = Some cur
                        \<and> peerOption h deps (fst e) (snd e) cur = Inr c)
           (firstFrom (package ` set acc) (filter (installedPeer deps) es)) new"
proof (induction es arbitrary: acc log)
  case Nil
  then show ?case by simp
next
  case (Cons e es)
  obtain p v where e: "e = (p, v)" by (cases e)
  from Cons.prems have step: "peerLoop h deps ((p, v) # es) acc log = (log', Inr cs)"
    by (simp add: e)
  from step show ?case
  proof (cases rule: peerLoop_step)
    case skip
    then have "firstFrom (package ` set acc) (filter (installedPeer deps) (e # es))
        = firstFrom (package ` set acc) (filter (installedPeer deps) es)"
      by (simp add: e)
    with Cons.IH [OF skip(2)] show ?thesis by simp
  next
    case warn
    then have "\<not> installedPeer deps e"
      by (auto simp: e installedPeer_def installedVersion_def split: option.splits if_splits)
    with Cons.IH [OF warn(3)] show ?thesis by simp
  next
    case (push c0 cur)
    have pc0: "package c0 = p" using push(4) by (rule peerOption_package)
    from push(2,3) have inst: "installedPeer deps e"
      by (simp add: e installedPeer_def)
    from Cons.IH [OF push(5)] obtain new where new: "cs = (acc @ [c0]) @ new"
      "list_all2 (\<lambda>e c. \<exists>cur. map_of deps (fst e) = Some cur
                        \<and> peerOption h deps (fst e) (snd e) cur = Inr c)
           (firstFrom (package ` set (acc @ [c0])) (filter (installedPeer deps) es)) new"
      by blast
    have f: "firstFrom (package ` set acc) (filter (installedPeer deps) (e # es))
        = e # firstFrom (insert p (package ` set acc)) (filter (installedPeer deps) es)"
      using inst push(1) by (simp add: e)
    have "list_all2 (\<lambda>e c. \<exists>cur. map_of deps (fst e) = Some cur
                        \<and> peerOption h deps (fst e) (snd e) cur = Inr c)
           (firstFrom (package ` set acc) (filter (installedPeer deps) (e # es))) (c0 # new)"
      unfolding f using new(2) push(2,4) by (simp add: e pc0)
    moreover have "cs = acc @ (c0 # new)" using new(1) by simp
    ultimately show ?thesis by blast
  qed
qed

text \<open>
  The loop returns when no entry names an inherited member and every comparison
  it makes returns.
\<close>

lemma peerLoop_returns:
  "\<forall>e \<in> set es. getProperty deps (fst e) \<noteq> Inherited
       \<and> (\<forall>cur. map_of deps (fst e) = Some cur \<and> cur \<noteq> []
            \<longrightarrow> (\<exists>n. compareVersions h cur (transformPeerVersion h (snd e)) = Inr n))
   \<Longrightarrow> \<exists>log' cs. peerLoop h deps es acc log = (log', Inr cs)"
proof (induction es arbitrary: acc log)
  case Nil
  then show ?case by simp
next
  case (Cons e es)
  obtain p v where e: "e = (p, v)" by (cases e)
  from Cons.prems have rest: "\<forall>e \<in> set es. getProperty deps (fst e) \<noteq> Inherited
       \<and> (\<forall>cur. map_of deps (fst e) = Some cur \<and> cur \<noteq> []
            \<longrightarrow> (\<exists>n. compareVersions h cur (transformPeerVersion h (snd e)) = Inr n))"
    by simp
  show ?case
  proof (cases "getProperty deps p")
    case Undefined
    with Cons.IH [OF rest] show ?thesis by (simp add: e)
  next
    case (Own cur)
    show ?thesis
    proof (cases "cur = []")
      case True
      with Own Cons.IH [OF rest] show ?thesis by (simp add: e)
    next
      case False
      with Own Cons.prems obtain n where
        "compareVersions h cur (transformPeerVersion h v) = Inr n"
        by (auto simp: e getProperty_Own)
      then obtain c0 where "peerOption h deps p v cur = Inr c0"
        by (simp add: peerOption_def Let_def)
      with Own False Cons.IH [OF rest] show ?thesis by (simp add: e)
    qed
  next
    case Inherited
    with Cons.prems show ?thesis by (simp add: e)
  qed
qed

lemma getPackagePeerDep_loop:
  "resolvePeerDependencies h packageName supplied = Inr peers \<Longrightarrow>
     getPackagePeerDep h packageName deps supplied = peerLoop h deps peers [] []"
  by (simp add: getPackagePeerDep_def)

lemma getPackagePeerDep_resolved:
  "getPackagePeerDep h packageName deps supplied = (log, Inr cs) \<Longrightarrow>
     \<exists>peers. resolvePeerDependencies h packageName supplied = Inr peers
       \<and> peerLoop h deps peers [] [] = (log, Inr cs)"
  by (cases "resolvePeerDependencies h packageName supplied")
     (auto simp: getPackagePeerDep_def split: if_splits)

lemma peerLoop_drop_absent:
  "getProperty deps p = Undefined \<Longrightarrow>
     snd (peerLoop h deps es acc log) = snd (peerLoop h deps (filter (\<lambda>e. fst e \<noteq> p) es) acc log')"
proof (induction es arbitrary: acc log log')
  case Nil
  then show ?case by simp
next
  case (Cons e es)
  obtain q v where e: "e = (q, v)" by (cases e)
  show ?case
  proof (cases "q = p")
    case True
    with Cons.prems Cons.IH [OF Cons.prems] show ?thesis
      by (simp add: e)
  next
    case False
    with Cons.IH [OF Cons.prems] show ?thesis
      by (simp add: e split: property.splits sum.splits)
  qed
qed

lemma missingMessage_inj: "missingMessage p = missingMessage q \<Longrightarrow> p = q"
  by (simp add: missingMessage_def)

lemma peerLoop_warnings:
  "peerLoop h deps es acc log = (log', Inr cs) \<Longrightarrow> getProperty deps p = Undefined \<Longrightarrow>
     p \<notin> package ` set acc \<Longrightarrow>
     count_list log' (missingMessage p) = count_list log (missingMessage p) + count_list (map fst es) p"
proof (induction es arbitrary: acc log)
  case Nil
  then show ?case by simp
next
  case (Cons e es)
  obtain q v where e: "e = (q, v)" by (cases e)
  from Cons.prems(1) have step: "peerLoop h deps ((q, v) # es) acc log = (log', Inr cs)"
    by (simp add: e)
  have absent: "map_of deps p = None"
    using Cons.prems(2) by (simp add: getProperty_Undefined)
  from step show ?case
  proof (cases rule: peerLoop_step)
    case skip
    with Cons.prems(3) have "q \<noteq> p" by auto
    with Cons.IH [OF skip(2) Cons.prems(2,3)] show ?thesis by (simp add: e)
  next
    case warn
    show ?thesis
    proof (cases "q = p")
      case True
      with Cons.IH [OF warn(3) Cons.prems(2,3)] show ?thesis by (simp add: e)
    next
      case False
      then have "missingMessage q \<noteq> missingMessage p"
        using missingMessage_inj by blast
      with False Cons.IH [OF warn(3) Cons.prems(2,3)] show ?thesis by (simp add: e)
    qed
  next
    case (push c0 cur)
    with absent have ne: "q \<noteq> p" by auto
    from push(4) have "package c0 = q" by (rule peerOption_package)
    with ne Cons.prems(3) have "p \<notin> package ` set (acc @ [c0])" by auto
    from Cons.IH [OF push(5) Cons.prems(2) this] ne show ?thesis by (simp add: e)
  qed
qed

lemma firstFrom_unseen: "e \<in> set (firstFrom seen es) \<Longrightarrow> fst e \<notin> seen"
proof (induction es arbitrary: seen)
  case Nil
  then show ?case by simp
next
  case (Cons x es)
  obtain k v where x: "x = (k, v)" by (cases x)
  from Cons.prems Cons.IH [of seen] Cons.IH [of "insert k seen"] show ?case
    by (auto simp: x split: if_splits)
qed

lemma firstFrom_map_of: "e \<in> set (firstFrom seen es) \<Longrightarrow> map_of es (fst e) = Some (snd e)"
proof (induction es arbitrary: seen)
  case Nil
  then show ?case by simp
next
  case (Cons x es)
  obtain k v where x: "x = (k, v)" by (cases x)
  show ?case
  proof (cases "k \<in> seen")
    case True
    with Cons.prems have e: "e \<in> set (firstFrom seen es)" by (simp add: x)
    from firstFrom_unseen [OF e] True have "fst e \<noteq> k" by auto
    with Cons.IH [OF e] show ?thesis by (simp add: x)
  next
    case False
    with Cons.prems consider "e = (k, v)" | "e \<in> set (firstFrom (insert k seen) es)"
      by (auto simp: x)
    then show ?thesis
    proof cases
      case 1
      then show ?thesis by (simp add: x)
    next
      case 2
      from firstFrom_unseen [OF 2] have "fst e \<noteq> k" by auto
      with Cons.IH [OF 2] show ?thesis by (simp add: x)
    qed
  qed
qed

lemma map_of_installed:
  "map_of (filter (installedPeer deps) es) k = Some v \<Longrightarrow> map_of es k = Some v"
proof (induction es)
  case Nil
  then show ?case by simp
next
  case (Cons x es)
  obtain k' v' where x: "x = (k', v')" by (cases x)
  show ?case
  proof (cases "installedPeer deps x")
    case True
    with Cons show ?thesis by (auto simp: x split: if_splits)
  next
    case False
    with Cons.prems have m: "map_of (filter (installedPeer deps) es) k = Some v" by simp
    then have "(k, v) \<in> set (filter (installedPeer deps) es)" by (rule map_of_SomeD)
    then have "installedPeer deps (k, v)" by simp
    with False have "k \<noteq> k'" by (auto simp: x installedPeer_def)
    with Cons.IH [OF m] show ?thesis by (simp add: x)
  qed
qed

lemma example_getPackagePeerDep:
  "getPackagePeerDep exampleEnv ''@nextui-org/button'' exampleInstalled (Some examplePeers)
     = ([''Missing peerDependencies: react-dom, check whether it is installed''],
        Inr [examplePeerOption])"
  by (simp add: getPackagePeerDep_def resolvePeerDependencies_def peerOption_def exampleEnv_def
        exampleCompare_def exampleTransform_def missingMessage_def examplePeerOption_def
        exampleInstalled_def examplePeers_def getProperty_def objectPrototypeMembers_def Let_def)

subsection \<open>Peer resolution\<close>

text \<open>
  C3. The list one call of the peer resolver returns has pairwise distinct
  package names, whatever the peer mapping and the installed set are. Each
  candidate in it is the one built from the first entry of the mapping with its
  name: \<^const>\<open>map_of\<close> yields the value of the first entry with a given key.
\<close>

theorem getPackagePeerDep_distinct_first_wins:
  "getPackagePeerDep h packageName deps supplied = (log, Inr cs) \<Longrightarrow>
     distinct (map package cs)
     \<and> (\<exists>peers. resolvePeerDependencies h packageName supplied = Inr peers
          \<and> (\<forall>c \<in> set cs. \<exists>v cur. map_of peers (package c) = Some v
                \<and> map_of deps (package c) = Some cur
                \<and> peerOption h deps (package c) v cur = Inr c))"
proof -
  assume "getPackagePeerDep h packageName deps supplied = (log, Inr cs)"
  from getPackagePeerDep_resolved [OF this] obtain peers
    where r: "resolvePeerDependencies h packageName supplied = Inr peers"
      and l: "peerLoop h deps peers [] [] = (log, Inr cs)"
    by blast
  from peerLoop_new [OF l] have "distinct (map package cs)"
    and "\<forall>c \<in> set cs. \<exists>v cur. map_of peers (package c) = Some v
                \<and> map_of deps (package c) = Some cur
                \<and> peerOption h deps (package c) v cur = Inr c"
    by auto
  with r show ?thesis by blast
qed

theorem getPackagePeerDep_distinct_first_wins_witness:
  "getPackagePeerDep exampleEnv ''@nextui-org/button'' exampleInstalled (Some examplePeers)
     = ([''Missing peerDependencies: react-dom, check whether it is installed''],
        Inr [examplePeerOption])
   \<and> distinct (map package [examplePeerOption])
   \<and> map_of examplePeers (package examplePeerOption) = Some ''>=18''
   \<and> peerOption exampleEnv exampleInstalled ''react'' ''>=18'' ''^17.0.2'' = Inr examplePeerOption"
proof -
  have m: "map_of examplePeers ''react'' = Some ''>=18''
      \<and> map_of exampleInstalled ''react'' = Some ''^17.0.2''
      \<and> package examplePeerOption = ''react''"
    by (simp add: examplePeers_def exampleInstalled_def examplePeerOption_def)
  from getPackagePeerDep_distinct_first_wins [OF example_getPackagePeerDep]
  have "distinct (map package [examplePeerOption])
     \<and> (\<exists>v cur. map_of examplePeers (package examplePeerOption) = Some v
          \<and> map_of exampleInstalled (package examplePeerOption) = Some cur
          \<and> peerOption exampleEnv exampleInstalled (package examplePeerOption) v cur
              = Inr examplePeerOption)"
    by (auto simp: resolvePeerDependencies_def)
  with m example_getPackagePeerDep show ?thesis by auto
qed

text \<open>
  C4. The statement holds of every peer \<open>p\<close> for which \<^verbatim>\<open>allDependencies[p]\<close> is
  \<^verbatim>\<open>undefined\<close> (the lemma after the theorem), and fails for a peer that is not
  installed but bears the name of a member of \<^verbatim>\<open>Object.prototype\<close>. The theorem
  runs the resolver on such a peer, \<open>constructor\<close>, for any environment: the
  installed set has no such key, yet no warning is logged and the call does not
  go on to return the empty list; it ends in what the helpers do with the
  inherited function. Next to it stands the same call for \<open>react-dom\<close>, which is
  not installed either: one warning, and the empty list.
\<close>

theorem getPackagePeerDep_inherited_peer_not_warned:
  "map_of exampleInstalled ''constructor'' = None
   \<and> getPackagePeerDep h packageName exampleInstalled (Some [(''constructor'', ''^1.0.0'')])
       = ([], Inl (inheritedOutcome h exampleInstalled ''constructor'' ''^1.0.0''))
   \<and> map_of exampleInstalled ''react-dom'' = None
   \<and> getPackagePeerDep h packageName exampleInstalled (Some [(''react-dom'', ''>=18'')])
       = ([missingMessage ''react-dom''], Inr [])"
  by (simp add: getPackagePeerDep_def resolvePeerDependencies_def getProperty_def
        objectPrototypeMembers_def exampleInstalled_def)

text \<open>
  Let \<^verbatim>\<open>allDependencies[p]\<close> be \<^verbatim>\<open>undefined\<close>: \<open>p\<close> is no key of the installed set and
  no member of \<^verbatim>\<open>Object.prototype\<close>. Then the entries naming \<open>p\<close> change neither the
  candidates returned nor whether the call throws: the outcome is that of the
  mapping without them. When the call returns, the log holds exactly one warning
  naming \<open>p\<close> for each entry naming \<open>p\<close>, and no candidate is named \<open>p\<close>.
\<close>

lemma getPackagePeerDep_undefined_peer:
  assumes "resolvePeerDependencies h packageName supplied = Inr peers"
    and "getProperty deps p = Undefined"
  shows "snd (getPackagePeerDep h packageName deps supplied)
           = snd (getPackagePeerDep h packageName deps (Some (filter (\<lambda>e. fst e \<noteq> p) peers)))
         \<and> (\<forall>log cs. getPackagePeerDep h packageName deps supplied = (log, Inr cs) \<longrightarrow>
               count_list log (missingMessage p) = count_list (map fst peers) p
               \<and> p \<notin> package ` set cs)"
proof -
  have absent: "map_of deps p = None"
    using assms(2) by (simp add: getProperty_Undefined)
  have g: "getPackagePeerDep h packageName deps supplied = peerLoop h deps peers [] []"
    using assms(1) by (rule getPackagePeerDep_loop)
  have "getPackagePeerDep h packageName deps (Some (filter (\<lambda>e. fst e \<noteq> p) peers))
          = peerLoop h deps (filter (\<lambda>e. fst e \<noteq> p) peers) [] []"
    by (rule getPackagePeerDep_loop) (simp add: resolvePeerDependencies_def)
  with g peerLoop_drop_absent [OF assms(2), of h peers "[]" "[]" "[]"]
  have a: "snd (getPackagePeerDep h packageName deps supplied)
           = snd (getPackagePeerDep h packageName deps (Some (filter (\<lambda>e. fst e \<noteq> p) peers)))"
    by simp
  have b: "count_list log (missingMessage p) = count_list (map fst peers) p \<and> p \<notin> package ` set cs"
    if "getPackagePeerDep h packageName deps supplied = (log, Inr cs)" for log cs
  proof -
    from that g have l: "peerLoop h deps peers [] [] = (log, Inr cs)" by simp
    from peerLoop_warnings [OF l assms(2)]
    have "count_list log (missingMessage p) = count_list (map fst peers) p" by simp
    moreover from peerLoop_new [OF l] absent have "p \<notin> package ` set cs" by auto
    ultimately show ?thesis by simp
  qed
  from a b show ?thesis by blast
qed

text \<open>
  C5, as amended. When the command output parses to a falsy value or to an
  object without entries, the resolver returns the empty list and logs nothing.
  When the command is rejected, or its output does not parse, the error is
  thrown on to the caller.
\<close>

theorem getPackagePeerDep_lookup_outcomes:
  "(exec h (''npm show '' @ packageName @ '' peerDependencies --json'') = Inr out
      \<and> (JSON_parse h out = Inr None \<or> JSON_parse h out = Inr (Some []))
      \<longrightarrow> getPackagePeerDep h packageName deps None = ([], Inr []))
   \<and> (exec h (''npm show '' @ packageName @ '' peerDependencies --json'') = Inl e
      \<longrightarrow> getPackagePeerDep h packageName deps None = ([], Inl e))
   \<and> (exec h (''npm show '' @ packageName @ '' peerDependencies --json'') = Inr out
      \<and> JSON_parse h out = Inl e
      \<longrightarrow> getPackagePeerDep h packageName deps None = ([], Inl e))"
  by (auto simp: getPackagePeerDep_def resolvePeerDependencies_def)

theorem getPackagePeerDep_lookup_outcomes_witness:
  "getPackagePeerDep exampleEnv ''@nextui-org/theme'' exampleInstalled None = ([], Inr [])
   \<and> getPackagePeerDep exampleEnv ''@nextui-org/button'' exampleInstalled None = ([], Inr [])
   \<and> getPackagePeerDep exampleEnv ''@nextui-org/card'' exampleInstalled None
       = ([], Inl (ExecError ''npm show @nextui-org/card peerDependencies --json''))
   \<and> getPackagePeerDep exampleEnv ''@nextui-org/system'' exampleInstalled None
       = ([], Inl (SyntaxError []))"
  using getPackagePeerDep_lookup_outcomes [where h = exampleEnv and packageName = "''@nextui-org/theme''"
       and out = "''null''" and deps = exampleInstalled]
    getPackagePeerDep_lookup_outcomes [where h = exampleEnv and packageName = "''@nextui-org/button''"
       and out = "''{}''" and deps = exampleInstalled]
    getPackagePeerDep_lookup_outcomes [where h = exampleEnv and packageName = "''@nextui-org/card''"
       and e = "ExecError ''npm show @nextui-org/card peerDependencies --json''"
       and deps = exampleInstalled]
    getPackagePeerDep_lookup_outcomes [where h = exampleEnv and packageName = "''@nextui-org/system''"
       and out = "[]" and e = "SyntaxError []" and deps = exampleInstalled]
  by (simp add: exampleEnv_def)

text \<open>
  C5 as stated fails: a rejected command and an output that is not JSON (here the
  empty output) both make the call throw instead of returning the empty list.
\<close>

theorem getPackagePeerDep_lookup_failure_counterexample:
  "getPackagePeerDep exampleEnv ''@nextui-org/card'' [(''react'', ''^18.2.0'')] None
     = ([], Inl (ExecError ''npm show @nextui-org/card peerDependencies --json''))
   \<and> getPackagePeerDep exampleEnv ''@nextui-org/system'' [(''react'', ''^18.2.0'')] None
     = ([], Inl (SyntaxError []))
   \<and> snd (getPackagePeerDep exampleEnv ''@nextui-org/card'' [(''react'', ''^18.2.0'')] None) \<noteq> Inr []
   \<and> snd (getPackagePeerDep exampleEnv ''@nextui-org/system'' [(''react'', ''^18.2.0'')] None) \<noteq> Inr []"
  by (simp add: getPackagePeerDep_def resolvePeerDependencies_def exampleEnv_def)

text \<open>
  C7. When the peer resolver returns, its list holds one candidate for each
  entry of the mapping that names an installed peer for the first time, in the
  order of the mapping. Such a candidate is latest exactly when the comparison
  of the installed version with the target derived from the declared range is
  not negative; when it is latest it shows the normalized installed version,
  otherwise the highlighted diff of the target against the installed version.
  The resolver does return whenever no entry names an inherited member and the
  comparisons it makes return.
\<close>

theorem getPackagePeerDep_isLatest:
  "(getPackagePeerDep h packageName deps supplied = (log, Inr cs) \<longrightarrow>
      (\<exists>peers. resolvePeerDependencies h packageName supplied = Inr peers
         \<and> list_all2
             (\<lambda>e c. \<exists>cur n. map_of peers (fst e) = Some (snd e)
                  \<and> map_of deps (fst e) = Some cur
                  \<and> compareVersions h cur (transformPeerVersion h (snd e)) = Inr n
                  \<and> package c = fst e
                  \<and> version c = cur
                  \<and> isLatest c = (n \<ge> 0)
                  \<and> (isLatest c \<longrightarrow> latestVersion c = transformPeerVersion h cur)
                  \<and> (\<not> isLatest c \<longrightarrow>
                        latestVersion c = getColorVersion h cur (transformPeerVersion h (snd e))))
             (firstFrom {} (filter (installedPeer deps) peers)) cs))
   \<and> (resolvePeerDependencies h packageName supplied = Inr peers
        \<and> (\<forall>e \<in> set peers. getProperty deps (fst e) \<noteq> Inherited
              \<and> (\<forall>cur. map_of deps (fst e) = Some cur \<and> cur \<noteq> []
                   \<longrightarrow> (\<exists>n. compareVersions h cur (transformPeerVersion h (snd e)) = Inr n)))
      \<longrightarrow> (\<exists>log cs. getPackagePeerDep h packageName deps supplied = (log, Inr cs)))"
proof (intro conjI impI)
  assume g: "getPackagePeerDep h packageName deps supplied = (log, Inr cs)"
  from getPackagePeerDep_resolved [OF g] obtain ps
    where r: "resolvePeerDependencies h packageName supplied = Inr ps"
      and l: "peerLoop h deps ps [] [] = (log, Inr cs)"
    by blast
  from peerLoop_candidates [OF l]
  have built: "list_all2 (\<lambda>e c. \<exists>cur. map_of deps (fst e) = Some cur
                        \<and> peerOption h deps (fst e) (snd e) cur = Inr c)
           (firstFrom {} (filter (installedPeer deps) ps)) cs"
    by simp
  have "list_all2
             (\<lambda>e c. \<exists>cur n. map_of ps (fst e) = Some (snd e)
                  \<and> map_of deps (fst e) = Some cur
                  \<and> compareVersions h cur (transformPeerVersion h (snd e)) = Inr n
                  \<and> package c = fst e
                  \<and> version c = cur
                  \<and> isLatest c = (n \<ge> 0)
                  \<and> (isLatest c \<longrightarrow> latestVersion c = transformPeerVersion h cur)
                  \<and> (\<not> isLatest c \<longrightarrow>
                        latestVersion c = getColorVersion h cur (transformPeerVersion h (snd e))))
             (firstFrom {} (filter (installedPeer deps) ps)) cs"
    using built
  proof (rule list.rel_mono_strong)
    fix e c
    assume e: "e \<in> set (firstFrom {} (filter (installedPeer deps) ps))"
      and "\<exists>cur. map_of deps (fst e) = Some cur \<and> peerOption h deps (fst e) (snd e) cur = Inr c"
    then obtain cur where cur: "map_of deps (fst e) = Some cur"
      and po: "peerOption h deps (fst e) (snd e) cur = Inr c"
      by blast
    from firstFrom_map_of [OF e] have "map_of ps (fst e) = Some (snd e)"
      by (rule map_of_installed)
    with cur peerOption_fields [OF po]
    show "\<exists>cur n. map_of ps (fst e) = Some (snd e)
                  \<and> map_of deps (fst e) = Some cur
                  \<and> compareVersions h cur (transformPeerVersion h (snd e)) = Inr n
                  \<and> package c = fst e
                  \<and> version c = cur
                  \<and> isLatest c = (n \<ge> 0)
                  \<and> (isLatest c \<longrightarrow> latestVersion c = transformPeerVersion h cur)
                  \<and> (\<not> isLatest c \<longrightarrow>
                        latestVersion c = getColorVersion h cur (transformPeerVersion h (snd e)))"
      by auto
  qed
  with r show "\<exists>peers. resolvePeerDependencies h packageName supplied = Inr peers
         \<and> list_all2
             (\<lambda>e c. \<exists>cur n. map_of peers (fst e) = Some (snd e)
                  \<and> map_of deps (fst e) = Some cur
                  \<and> compareVersions h cur (transformPeerVersion h (snd e)) = Inr n
                  \<and> package c = fst e
                  \<and> version c = cur
                  \<and> isLatest c = (n \<ge> 0)
                  \<and> (isLatest c \<longrightarrow> latestVersion c = transformPeerVersion h cur)
                  \<and> (\<not> isLatest c \<longrightarrow>
                        latestVersion c = getColorVersion h cur (transformPeerVersion h (snd e))))
             (firstFrom {} (filter (installedPeer deps) peers)) cs"
    by blast
next
  assume a: "resolvePeerDependencies h packageName supplied = Inr peers
        \<and> (\<forall>e \<in> set peers. getProperty deps (fst e) \<noteq> Inherited
              \<and> (\<forall>cur. map_of deps (fst e) = Some cur \<and> cur \<noteq> []
                   \<longrightarrow> (\<exists>n. compareVersions h cur (transformPeerVersion h (snd e)) = Inr n)))"
  then have "getPackagePeerDep h packageName deps supplied = peerLoop h deps peers [] []"
    by (simp add: getPackagePeerDep_loop)
  moreover from a have "\<exists>log' cs. peerLoop h deps peers [] [] = (log', Inr cs)"
    by (intro peerLoop_returns) blast
  ultimately show "\<exists>log cs. getPackagePeerDep h packageName deps supplied = (log, Inr cs)"
    by simp
qed

theorem getPackagePeerDep_isLatest_witness:
  "getPackagePeerDep exampleEnv ''@nextui-org/react'' exampleProject None
     = ([], Inr [\<lparr>package = ''react'', version = ''^17.0.2'', latestVersion = ''[18]'',
                   isLatest = False, versionMode = ''^'', peerDependencies = None\<rparr>,
                 \<lparr>package = ''react-dom'', version = ''18.2.0'', latestVersion = ''18.2.0'',
                   isLatest = True, versionMode = [], peerDependencies = None\<rparr>])
   \<and> resolvePeerDependencies exampleEnv ''@nextui-org/react'' None
       = Inr [(''react'', ''>=18''), (''react-dom'', ''>=18'')]
   \<and> firstFrom {} (filter (installedPeer exampleProject) [(''react'', ''>=18''), (''react-dom'', ''>=18'')])
       = [(''react'', ''>=18''), (''react-dom'', ''>=18'')]
   \<and> list_all2
        (\<lambda>e c. \<exists>cur n. map_of [(''react'', ''>=18''), (''react-dom'', ''>=18'')] (fst e) = Some (snd e)
             \<and> map_of exampleProject (fst e) = Some cur
             \<and> compareVersions exampleEnv cur (transformPeerVersion exampleEnv (snd e)) = Inr n
             \<and> package c = fst e
             \<and> version c = cur
             \<and> isLatest c = (n \<ge> 0)
             \<and> (isLatest c \<longrightarrow> latestVersion c = transformPeerVersion exampleEnv cur)
             \<and> (\<not> isLatest c \<longrightarrow>
                   latestVersion c = getColorVersion exampleEnv cur (transformPeerVersion exampleEnv (snd e))))
        [(''react'', ''>=18''), (''react-dom'', ''>=18'')]
        [\<lparr>package = ''react'', version = ''^17.0.2'', latestVersion = ''[18]'',
           isLatest = False, versionMode = ''^'', peerDependencies = None\<rparr>,
         \<lparr>package = ''react-dom'', version = ''18.2.0'', latestVersion = ''18.2.0'',
           isLatest = True, versionMode = [], peerDependencies = None\<rparr>]
   \<and> compareVersions exampleEnv ''^17.0.2'' (transformPeerVersion exampleEnv ''>=18'') = Inr (- 1)
   \<and> compareVersions exampleEnv ''18.2.0'' (transformPeerVersion exampleEnv ''>=18'') = Inr 1
   \<and> getColorVersion exampleEnv ''^17.0.2'' (transformPeerVersion exampleEnv ''>=18'') = ''[18]''
   \<and> transformPeerVersion exampleEnv ''18.2.0'' = ''18.2.0''"
proof -
  have r: "resolvePeerDependencies exampleEnv ''@nextui-org/react'' None
       = Inr [(''react'', ''>=18''), (''react-dom'', ''>=18'')]"
    by (simp add: resolvePeerDependencies_def exampleEnv_def)
  have ok: "\<forall>e \<in> set [(''react'', ''>=18''), (''react-dom'', ''>=18'')].
      getProperty exampleProject (fst e) \<noteq> Inherited
      \<and> (\<forall>cur. map_of exampleProject (fst e) = Some cur \<and> cur \<noteq> []
           \<longrightarrow> (\<exists>n. compareVersions exampleEnv cur (transformPeerVersion exampleEnv (snd e)) = Inr n))"
    by (simp add: getProperty_def exampleProject_def exampleEnv_def exampleCompare_def
          exampleTransform_def)
  have f: "firstFrom {} (filter (installedPeer exampleProject) [(''react'', ''>=18''), (''react-dom'', ''>=18'')])
       = [(''react'', ''>=18''), (''react-dom'', ''>=18'')]"
    by (simp add: installedPeer_def exampleProject_def)
  have c: "compareVersions exampleEnv ''^17.0.2'' (transformPeerVersion exampleEnv ''>=18'') = Inr (- 1)"
      "compareVersions exampleEnv ''18.2.0'' (transformPeerVersion exampleEnv ''>=18'') = Inr 1"
      "getColorVersion exampleEnv ''^17.0.2'' (transformPeerVersion exampleEnv ''>=18'') = ''[18]''"
      "transformPeerVersion exampleEnv ''18.2.0'' = ''18.2.0''"
    by (simp_all add: exampleEnv_def exampleCompare_def exampleTransform_def)
  note inst = getPackagePeerDep_isLatest [where h = exampleEnv and packageName = "''@nextui-org/react''"
      and deps = exampleProject and supplied = None
      and peers = "[(''react'', ''>=18''), (''react-dom'', ''>=18'')]"]
  from inst r ok obtain log cs where
    ret: "getPackagePeerDep exampleEnv ''@nextui-org/react'' exampleProject None = (log, Inr cs)"
    by blast
  have ev: "getPackagePeerDep exampleEnv ''@nextui-org/react'' exampleProject None
     = ([], Inr [\<lparr>package = ''react'', version = ''^17.0.2'', latestVersion = ''[18]'',
                   isLatest = False, versionMode = ''^'', peerDependencies = None\<rparr>,
                 \<lparr>package = ''react-dom'', version = ''18.2.0'', latestVersion = ''18.2.0'',
                   isLatest = True, versionMode = [], peerDependencies = None\<rparr>])"
    by (simp add: getPackagePeerDep_def resolvePeerDependencies_def peerOption_def exampleEnv_def
        exampleCompare_def exampleTransform_def exampleProject_def getProperty_def Let_def)
  from getPackagePeerDep_isLatest [where h = exampleEnv and packageName = "''@nextui-org/react''"
      and deps = exampleProject and supplied = None and log = "[]"
      and cs = "[\<lparr>package = ''react'', version = ''^17.0.2'', latestVersion = ''[18]'',
                   isLatest = False, versionMode = ''^'', peerDependencies = None\<rparr>,
                 \<lparr>package = ''react-dom'', version = ''18.2.0'', latestVersion = ''18.2.0'',
                   isLatest = True, versionMode = [], peerDependencies = None\<rparr>]"] ev r
  have la: "list_all2
        (\<lambda>e c. \<exists>cur n. map_of [(''react'', ''>=18''), (''react-dom'', ''>=18'')] (fst e) = Some (snd e)
             \<and> map_of exampleProject (fst e) = Some cur
             \<and> compareVersions exampleEnv cur (transformPeerVersion exampleEnv (snd e)) = Inr n
             \<and> package c = fst e
             \<and> version c = cur
             \<and> isLatest c = (n \<ge> 0)
             \<and> (isLatest c \<longrightarrow> latestVersion c = transformPeerVersion exampleEnv cur)
             \<and> (\<not> isLatest c \<longrightarrow>
                   latestVersion c = getColorVersion exampleEnv cur (transformPeerVersion exampleEnv (snd e))))
        (firstFrom {} (filter (installedPeer exampleProject) [(''react'', ''>=18''), (''react-dom'', ''>=18'')]))
        [\<lparr>package = ''react'', version = ''^17.0.2'', latestVersion = ''[18]'',
           isLatest = False, versionMode = ''^'', peerDependencies = None\<rparr>,
         \<lparr>package = ''react-dom'', version = ''18.2.0'', latestVersion = ''18.2.0'',
           isLatest = True, versionMode = [], peerDependencies = None\<rparr>]"
    by auto
  from ev r f la [unfolded f] c show ?thesis by blast
qed

subsection \<open>The returned list\<close>

lemma outputDependencies_lists:
  "snd (outputDependencies h ol pl) = (map stripVersion ol, map stripVersion pl)"
  using snd_getUpgradeVersion [of h ol False] snd_getUpgradeVersion [of h pl True]
  by (auto simp: outputDependencies_def split: prod.splits)

lemma filter_stripVersion:
  "filter (\<lambda>c. \<not> isLatest c) (map stripVersion xs) = map stripVersion (filter (\<lambda>c. \<not> isLatest c) xs)"
  by (simp add: filter_map comp_def)

lemma allResults_Inr: "allResults rs = Inr xs \<Longrightarrow> rs = map Inr xs"
proof (induction rs arbitrary: xs)
  case Nil
  then show ?case by simp
next
  case (Cons r rs)
  then show ?case by (cases r) (auto split: sum.splits)
qed

lemma example_umbrella_peers:
  "getPackagePeerDep exampleEnv ''@nextui-org/react'' exampleInstalled None
     = ([missingMessage ''react-dom''], Inr [examplePeerOption])
   \<and> getPackagePeerDep exampleEnv ''@nextui-org/theme'' exampleInstalled None = ([], Inr [])"
  by (simp add: getPackagePeerDep_def resolvePeerDependencies_def peerOption_def exampleEnv_def
        exampleCompare_def exampleTransform_def missingMessage_def examplePeerOption_def
        exampleInstalled_def Let_def getProperty_def
        objectPrototypeMembers_def)

lemma example_button_peers:
  "getPackagePeerDep exampleEnv (package exampleButton) exampleInstalled (peerDependencies exampleButton)
     = ([missingMessage ''react-dom''], Inr [examplePeerOption])"
  using example_getPackagePeerDep by (simp add: exampleButton_def missingMessage_def)

lemma example_components:
  "snd (snd (upgrade exampleEnv ''1.2.0'' exampleComponents))
     = Inr [examplePeerOption\<lparr>version := ''17.0.2''\<rparr>]"
proof -
  obtain boxes ol pl where od:
    "outputDependencies exampleEnv
          [exampleButton\<lparr>latestVersion := ''[2.0.0]''\<rparr>] [examplePeerOption] = (boxes, ol, pl)"
    by (metis prod_cases3)
  from outputDependencies_lists
     [of exampleEnv "[exampleButton\<lparr>latestVersion := ''[2.0.0]''\<rparr>]" "[examplePeerOption]"] od
  have ol: "ol = [stripVersion (exampleButton\<lparr>latestVersion := ''[2.0.0]''\<rparr>)]"
    and pl: "pl = [stripVersion examplePeerOption]"
    by simp_all
  have f: "isLatest (exampleButton\<lparr>latestVersion := ''[2.0.0]''\<rparr>)"
      "\<not> isLatest examplePeerOption"
      "stripVersion examplePeerOption = examplePeerOption\<lparr>version := ''17.0.2''\<rparr>"
      "getColorVersion exampleEnv (version exampleButton) (latestVersion exampleButton) = ''[2.0.0]''"
    by (simp_all add: exampleButton_def examplePeerOption_def stripVersion_def exampleEnv_def)
  have "snd (snd (upgrade exampleEnv ''1.2.0'' exampleComponents))
      = Inr (filter (\<lambda>c. \<not> isLatest c) (ol @ pl))"
    using example_button_peers od f(4)
    by (simp add: upgrade_def exampleComponents_def Let_def)
  then show ?thesis using f(1,2,3) by (simp add: ol pl)
qed

text \<open>
  C1. In umbrella mode, when the comparison and both peer resolutions succeed,
  the returned list is empty if the installed version of the umbrella package
  compares not below the latest version, whatever the peers are. Otherwise it is
  the umbrella candidate followed by the candidates of both peer resolutions, in
  that order, that are not latest. The candidates are the objects the rendering
  has gone over, so their versions have lost their first caret.
\<close>

theorem upgrade_umbrella:
  assumes "isNextUIAll options"
    and "getVersionAndMode h (allDependencies options) (NEXT_UI h) = (currentVersion, mode)"
    and "compareVersions h currentVersion storeLatest = Inr n"
    and "getPackagePeerDep h (NEXT_UI h) (allDependencies options) None = (log1, Inr peers1)"
    and "getPackagePeerDep h (THEME_UI h) (allDependencies options) None = (log2, Inr peers2)"
  shows "snd (snd (upgrade h storeLatest options)) =
     Inr (if n \<ge> 0 then []
          else map stripVersion
                 (\<lparr>package = NEXT_UI h, version = currentVersion,
                   latestVersion = getColorVersion h currentVersion storeLatest,
                   isLatest = False, versionMode = mode, peerDependencies = None\<rparr>
                  # filter (\<lambda>c. \<not> isLatest c) (peers1 @ peers2)))"
proof -
  obtain boxes ol pl where od:
    "outputDependencies h
       [\<lparr>package = NEXT_UI h, version = currentVersion,
         latestVersion = getColorVersion h currentVersion storeLatest,
         isLatest = (n \<ge> 0), versionMode = mode, peerDependencies = None\<rparr>]
       (peers1 @ peers2) = (boxes, ol, pl)"
    by (metis prod_cases3)
  from outputDependencies_lists
     [of h "[\<lparr>package = NEXT_UI h, version = currentVersion,
         latestVersion = getColorVersion h currentVersion storeLatest,
         isLatest = (n \<ge> 0), versionMode = mode, peerDependencies = None\<rparr>]" "peers1 @ peers2"] od
  have ol: "ol = [stripVersion \<lparr>package = NEXT_UI h, version = currentVersion,
         latestVersion = getColorVersion h currentVersion storeLatest,
         isLatest = (n \<ge> 0), versionMode = mode, peerDependencies = None\<rparr>]"
    and pl: "pl = map stripVersion (peers1 @ peers2)"
    by simp_all
  have "snd (snd (upgrade h storeLatest options)) =
      Inr (if \<not> (n \<ge> 0) then ol @ filter (\<lambda>c. \<not> isLatest c) pl else [])"
    using assms od by (simp add: upgrade_def Let_def)
  then show ?thesis
    unfolding ol pl filter_stripVersion by (cases "n \<ge> 0") simp_all
qed

theorem upgrade_umbrella_witness:
  "isNextUIAll exampleUmbrella
   \<and> compareVersions exampleEnv ''1.0.0'' ''1.2.0'' = Inr (- 1)
   \<and> compareVersions exampleEnv ''1.0.0'' ''1.0.0'' = Inr 0
   \<and> snd (snd (upgrade exampleEnv ''1.2.0'' exampleUmbrella))
       = Inr [\<lparr>package = ''@nextui-org/react'', version = ''1.0.0'', latestVersion = ''[1.2.0]'',
                isLatest = False, versionMode = ''^'', peerDependencies = None\<rparr>,
              examplePeerOption\<lparr>version := ''17.0.2''\<rparr>]
   \<and> snd (snd (upgrade exampleEnv ''1.0.0'' exampleUmbrella)) = Inr []"
proof -
  have u: "isNextUIAll exampleUmbrella" and d: "allDependencies exampleUmbrella = exampleInstalled"
    by (simp_all add: exampleUmbrella_def)
  have nx: "NEXT_UI exampleEnv = ''@nextui-org/react''" and th: "THEME_UI exampleEnv = ''@nextui-org/theme''"
    by (simp_all add: exampleEnv_def)
  have vm: "getVersionAndMode exampleEnv (allDependencies exampleUmbrella) (NEXT_UI exampleEnv)
      = (''1.0.0'', ''^'')"
    by (simp add: exampleUmbrella_def exampleEnv_def exampleInstalled_def exampleTransform_def)
  have c1: "compareVersions exampleEnv ''1.0.0'' ''1.2.0'' = Inr (- 1)"
    and c2: "compareVersions exampleEnv ''1.0.0'' ''1.0.0'' = Inr 0"
    by (simp_all add: exampleEnv_def exampleCompare_def exampleTransform_def)
  have p1: "getPackagePeerDep exampleEnv (NEXT_UI exampleEnv) (allDependencies exampleUmbrella) None
      = ([missingMessage ''react-dom''], Inr [examplePeerOption])"
    and p2: "getPackagePeerDep exampleEnv (THEME_UI exampleEnv) (allDependencies exampleUmbrella) None
      = ([], Inr [])"
    using example_umbrella_peers by (simp_all add: d nx th)
  have col: "getColorVersion exampleEnv ''1.0.0'' ''1.2.0'' = ''[1.2.0]''"
    by (simp add: exampleEnv_def)
  have st: "stripVersion examplePeerOption = examplePeerOption\<lparr>version := ''17.0.2''\<rparr>"
       "\<not> isLatest examplePeerOption"
       "stripVersion \<lparr>package = ''@nextui-org/react'', version = ''1.0.0'', latestVersion = ''[1.2.0]'',
                isLatest = False, versionMode = ''^'', peerDependencies = None\<rparr>
        = \<lparr>package = ''@nextui-org/react'', version = ''1.0.0'', latestVersion = ''[1.2.0]'',
                isLatest = False, versionMode = ''^'', peerDependencies = None\<rparr>"
    by (simp_all add: stripVersion_def examplePeerOption_def)
  from upgrade_umbrella [OF u vm c1 p1 p2] upgrade_umbrella [OF u vm c2 p1 p2]
  show ?thesis using u c1 c2 by (simp add: nx col st)
qed

text \<open>
  C2. No candidate of a returned list is latest, in either mode. In
  multi-component mode every peer resolution has succeeded when a list is
  returned, and the list is the primary candidates (with the highlighted
  \<open>latestVersion\<close>) followed by the peer lists in order, as the rendering left them,
  filtered to the candidates that are not latest.
\<close>

theorem upgrade_result_not_latest:
  assumes "snd (snd (upgrade h storeLatest options)) = Inr result"
  shows "(\<forall>c \<in> set result. \<not> isLatest c)
     \<and> (\<not> isNextUIAll options \<longrightarrow>
          (\<exists>upgradePeerList.
             map (\<lambda>upgradeOption. snd (getPackagePeerDep h (package upgradeOption)
                     (allDependencies options) (peerDependencies upgradeOption)))
               (upgradeOptionList options) = map Inr upgradePeerList
             \<and> result = filter (\<lambda>c. \<not> isLatest c)
                 (map stripVersion
                    (map (\<lambda>c. c\<lparr>latestVersion := getColorVersion h (version c) (latestVersion c)\<rparr>)
                       (upgradeOptionList options)
                     @ concat upgradePeerList))))"
proof (cases "isNextUIAll options")
  case True
  obtain currentVersion mode where vm:
    "getVersionAndMode h (allDependencies options) (NEXT_UI h) = (currentVersion, mode)"
    by (cases "getVersionAndMode h (allDependencies options) (NEXT_UI h)")
  obtain log1 r1 where p1: "getPackagePeerDep h (NEXT_UI h) (allDependencies options) None = (log1, r1)"
    by (cases "getPackagePeerDep h (NEXT_UI h) (allDependencies options) None")
  obtain log2 r2 where p2: "getPackagePeerDep h (THEME_UI h) (allDependencies options) None = (log2, r2)"
    by (cases "getPackagePeerDep h (THEME_UI h) (allDependencies options) None")
  from assms True vm p1 p2 obtain n peers1 peers2 boxes ol pl where
    n: "compareVersions h currentVersion storeLatest = Inr n"
    and r: "r1 = Inr peers1" "r2 = Inr peers2"
    and od: "outputDependencies h
       [\<lparr>package = NEXT_UI h, version = currentVersion,
         latestVersion = getColorVersion h currentVersion storeLatest,
         isLatest = (n \<ge> 0), versionMode = mode, peerDependencies = None\<rparr>]
       (peers1 @ peers2) = (boxes, ol, pl)"
    and res: "result = (if \<not> (n \<ge> 0) then ol @ filter (\<lambda>c. \<not> isLatest c) pl else [])"
    by (auto simp: upgrade_def Let_def split: sum.splits prod.splits)
  from outputDependencies_lists
     [of h "[\<lparr>package = NEXT_UI h, version = currentVersion,
         latestVersion = getColorVersion h currentVersion storeLatest,
         isLatest = (n \<ge> 0), versionMode = mode, peerDependencies = None\<rparr>]" "peers1 @ peers2"] od
  have ol: "ol = [stripVersion \<lparr>package = NEXT_UI h, version = currentVersion,
         latestVersion = getColorVersion h currentVersion storeLatest,
         isLatest = (n \<ge> 0), versionMode = mode, peerDependencies = None\<rparr>]"
    by simp
  have "\<forall>c \<in> set result. \<not> isLatest c"
    unfolding res ol by (cases "n \<ge> 0") auto
  with True show ?thesis by simp
next
  case False
  let ?calls = "map (\<lambda>upgradeOption. getPackagePeerDep h (package upgradeOption)
                     (allDependencies options) (peerDependencies upgradeOption))
               (upgradeOptionList options)"
  let ?primary = "map (\<lambda>c. c\<lparr>latestVersion := getColorVersion h (version c) (latestVersion c)\<rparr>)
                       (upgradeOptionList options)"
  from assms False obtain upgradePeerList boxes ol pl where
    ar: "allResults (map snd ?calls) = Inr upgradePeerList"
    and od: "outputDependencies h ?primary (concat upgradePeerList) = (boxes, ol, pl)"
    and res: "result = filter (\<lambda>c. \<not> isLatest c) (ol @ pl)"
    by (auto simp: upgrade_def Let_def split: sum.splits prod.splits)
  from outputDependencies_lists [of h ?primary "concat upgradePeerList"] od
  have ol: "ol = map stripVersion ?primary" and pl: "pl = map stripVersion (concat upgradePeerList)"
    by simp_all
  from allResults_Inr [OF ar]
  have calls: "map (\<lambda>upgradeOption. snd (getPackagePeerDep h (package upgradeOption)
                     (allDependencies options) (peerDependencies upgradeOption)))
               (upgradeOptionList options) = map Inr upgradePeerList"
    by (simp add: comp_def)
  have eq: "result = filter (\<lambda>c. \<not> isLatest c) (map stripVersion (?primary @ concat upgradePeerList))"
    unfolding res ol pl by simp
  have "\<forall>c \<in> set result. \<not> isLatest c"
    unfolding eq by auto
  with calls eq show ?thesis by blast
qed

theorem upgrade_result_not_latest_witness:
  "snd (snd (upgrade exampleEnv ''1.2.0'' exampleComponents))
     = Inr [examplePeerOption\<lparr>version := ''17.0.2''\<rparr>]
   \<and> \<not> isNextUIAll exampleComponents
   \<and> list_all (\<lambda>c. \<not> isLatest c) [examplePeerOption\<lparr>version := ''17.0.2''\<rparr>]
   \<and> (\<exists>upgradePeerList.
         map (\<lambda>upgradeOption. snd (getPackagePeerDep exampleEnv (package upgradeOption)
                 (allDependencies exampleComponents) (peerDependencies upgradeOption)))
           (upgradeOptionList exampleComponents) = map Inr upgradePeerList
         \<and> [examplePeerOption\<lparr>version := ''17.0.2''\<rparr>]
             = filter (\<lambda>c. \<not> isLatest c)
                 (map stripVersion
                    (map (\<lambda>c. c\<lparr>latestVersion := getColorVersion exampleEnv (version c) (latestVersion c)\<rparr>)
                       (upgradeOptionList exampleComponents)
                     @ concat upgradePeerList)))"
proof -
  have n: "\<not> isNextUIAll exampleComponents" by (simp add: exampleComponents_def)
  from upgrade_result_not_latest [OF example_components] n
  show ?thesis using example_components by (simp add: list_all_iff)
qed

end
